theory Spec2Isabelle
  imports Complex_Main "HOL-Library.AList"
begin

section \<open>Values, errors and job records\<close>

text \<open>
  The manager of \<^verbatim>\<open>PollingServiceManager<T, U, V>\<close> is generic in the types of the trigger
  result, the poll result and the final result. The code looks at these values in two ways
  only: it compares a poll result with \<^verbatim>\<open>undefined\<close>, and it tests a stored trigger or poll
  result for truthiness (\<^verbatim>\<open>!job.triggerResult\<close>, \<^verbatim>\<open>!job.pollResult\<close>). A value is therefore
  a JavaScript value with enough structure to decide both: numbers are integers or NaN,
  an object is an opaque reference. An optional field that was never written reads as
  \<^verbatim>\<open>undefined\<close>.
\<close>

datatype JobState = PENDING | POLLING | COMPLETED | FAILED | ABORTED

datatype jsval = JUndefined | JNull | JBool bool | JNum int | JNaN | JStr string | JObj nat

fun truthy :: "jsval \<Rightarrow> bool" where
  "truthy JUndefined = False"
| "truthy JNull = False"
| "truthy (JBool b) = b"
| "truthy (JNum n) = (n \<noteq> 0)"
| "truthy JNaN = False"
| "truthy (JStr s) = (s \<noteq> [])"
| "truthy (JObj a) = True"

text \<open>
  The three error classes of the source, each with its message. A thrown or rejected value
  is either an \<^verbatim>\<open>Error\<close> instance or some other value, kept as the string that
  \<^verbatim>\<open>String(value)\<close> gives. \<open>asError\<close> is the expression
  \<^verbatim>\<open>error instanceof Error ? error : new Error(String(error))\<close> of every catch block.
\<close>

datatype error = Error string | PollingError string | PollingAbortError string

datatype thrown = ThrownError error | ThrownOther string

fun asError :: "thrown \<Rightarrow> error" where
  "asError (ThrownError e) = e"
| "asError (ThrownOther str) = Error str"

text \<open>
  The retry ceiling is a JavaScript number: a finite value (every double is a rational), an
  infinity or NaN. The code compares the retry count, which counts up from 0 by 1, with it:
  \<open>exceeds n c\<close> is \<^verbatim>\<open>n > c\<close>, false whenever \<open>c\<close> is NaN.
\<close>

datatype jsnumber = Finite rat | PosInfinity | NegInfinity | NotANumber

fun exceeds :: "int \<Rightarrow> jsnumber \<Rightarrow> bool" where
  "exceeds n (Finite q) = (of_int n > q)"
| "exceeds n PosInfinity = False"
| "exceeds n NegInfinity = True"
| "exceeds n NotANumber = False"

text \<open>What the manager calls: stage functions and callbacks, with the job object and argument.\<close>

datatype invocation =
    TriggerFn nat
  | PollFn nat jsval
  | CompleteFn nat jsval
  | OnComplete nat jsval
  | OnError nat error

text \<open>
  The job record. A stage function is opaque. Its field says what the call itself does:
  it returns a promise (\<open>None\<close>) or throws before it returns one (\<open>Some t\<close>); which of
  the two may depend on its argument and on the invocations made so far, so that two calls
  of the same function need not behave alike. A promise that was returned is settled later
  by an event. The two callbacks are synchronous host functions: each either returns
  (\<open>None\<close>) or throws (\<open>Some t\<close>). Neither a stage function nor a callback calls back into
  the manager while it runs. A job object lives in the heap under a reference; closures and
  the registry share it. The retry count is an integer: it starts at 0 and goes up by 1 (a
  double counts exactly up to 2^53, which no sequence of polls reaches).
\<close>

record Job =
  job_id :: string
  state :: JobState
  triggerFn :: "invocation list \<Rightarrow> thrown option"
  pollFn :: "invocation list \<Rightarrow> jsval \<Rightarrow> thrown option"
  completeFn :: "invocation list \<Rightarrow> jsval \<Rightarrow> thrown option"
  onComplete :: "(jsval \<Rightarrow> thrown option) option"
  onError :: "(error \<Rightarrow> thrown option) option"
  triggerResult :: jsval
  pollResult :: jsval
  finalResult :: jsval
  retryCount :: int
  error :: "error option"
  timerId :: "nat option"

text \<open>A stage function call that was started and is awaited: job id and captured job object.\<close>

datatype call = TriggerCall string nat | PollCall string nat | CompleteCall string nat

text \<open>
  The manager together with the part of the JavaScript runtime it uses:
  \<open>jobs\<close> is the \<^verbatim>\<open>Map<string, Job>\<close> in insertion order, holding references into \<open>heap\<close>;
  \<open>timers\<close> are the timeouts that are set and neither fired nor cleared, each with the job id
  and job object its callback captured; \<open>calls\<close> are the awaited promises; \<open>fresh\<close> is the
  next unused handle; \<open>trace\<close> lists the invocations made so far, oldest first.
  \<open>maxRetryAttemptsText\<close> is the string that the template literal
  \<^verbatim>\<open>${this.options.maxRetryAttempts}\<close> gives: the runtime's rendering of the ceiling is an
  input, fixed when the manager is constructed. The polling interval, wall-clock time and
  log output are not part of the model.
\<close>

record manager =
  jobs :: "(string \<times> nat) list"
  maxRetryAttempts :: jsnumber
  maxRetryAttemptsText :: string
  heap :: "nat \<Rightarrow> Job"
  timers :: "nat \<Rightarrow> (string \<times> nat) option"
  calls :: "nat \<Rightarrow> call option"
  fresh :: nat
  trace :: "invocation list"

section \<open>Control flow: exceptions, try/catch, calls that are not awaited\<close>

text \<open>
  A piece of code that may throw maps a state to the thrown value, if any, and the state
  reached up to there.
\<close>

type_synonym step = "manager \<Rightarrow> thrown option \<times> manager"

definition returns :: step where
  "returns s = (None, s)"

definition throws :: "thrown \<Rightarrow> step" where
  "throws t s = (Some t, s)"

definition effect :: "(manager \<Rightarrow> manager) \<Rightarrow> step" where
  "effect f s = (None, f s)"

definition andThen :: "step \<Rightarrow> step \<Rightarrow> step" where
  "andThen a b s = (case a s of (None, s') \<Rightarrow> b s' | (Some t, s') \<Rightarrow> (Some t, s'))"

definition tryCatch :: "step \<Rightarrow> (thrown \<Rightarrow> step) \<Rightarrow> step" where
  "tryCatch body handler s =
     (case body s of (None, s') \<Rightarrow> (None, s') | (Some t, s') \<Rightarrow> handler t s')"

text \<open>
  Calling an \<^verbatim>\<open>async\<close> function without awaiting it: whatever it throws rejects the promise
  it returned, which nobody looks at.
\<close>

definition notAwaited :: "step \<Rightarrow> step" where
  "notAwaited a s = (None, snd (a s))"

definition updJob :: "nat \<Rightarrow> (Job \<Rightarrow> Job) \<Rightarrow> manager \<Rightarrow> manager" where
  "updJob r f s = s\<lparr>heap := (heap s)(r := f (heap s r))\<rparr>"

text \<open>
  Calling a stage function: the invocation is recorded; then either the call throws, or the
  promise it returned is awaited under a new handle.
\<close>

definition invoke :: "thrown option \<Rightarrow> call \<Rightarrow> invocation \<Rightarrow> step" where
  "invoke thrownByCall c i s =
     (case thrownByCall of
        Some t \<Rightarrow> (Some t, s\<lparr>trace := trace s @ [i]\<rparr>)
      | None \<Rightarrow>
          (None, s\<lparr>calls := (calls s)(fresh s \<mapsto> c), fresh := Suc (fresh s),
                    trace := trace s @ [i]\<rparr>))"

definition callOnComplete :: "nat \<Rightarrow> (jsval \<Rightarrow> thrown option) \<Rightarrow> jsval \<Rightarrow> step" where
  "callOnComplete r f v s = (f v, s\<lparr>trace := trace s @ [OnComplete r v]\<rparr>)"

definition callOnError :: "nat \<Rightarrow> (error \<Rightarrow> thrown option) \<Rightarrow> error \<Rightarrow> step" where
  "callOnError r f e s = (f e, s\<lparr>trace := trace s @ [OnError r e]\<rparr>)"

section \<open>The manager's internal execution steps\<close>

text \<open>
  \<^verbatim>\<open>handleJobError\<close>: looks the job up by id; when it is registered, marks it FAILED, stores
  the error and calls \<^verbatim>\<open>onError\<close> inside a try/catch whose handler only logs. The final test
  for \<^verbatim>\<open>PollingAbortError\<close> returns on both branches and is left out.
\<close>

definition handleJobError :: "string \<Rightarrow> error \<Rightarrow> step" where
  "handleJobError jobId err s =
     (case map_of (jobs s) jobId of
        None \<Rightarrow> returns s
      | Some r \<Rightarrow>
          andThen (effect (updJob r (\<lambda>j. j\<lparr>state := FAILED, error := Some err\<rparr>)))
            (\<lambda>s1. case onError (heap s1 r) of
                     None \<Rightarrow> returns s1
                   | Some f \<Rightarrow> tryCatch (callOnError r f err) (\<lambda>callbackError. returns) s1) s)"

text \<open>
  \<^verbatim>\<open>executeJobPolling\<close>: returns at once unless the job is registered and POLLING; otherwise
  sets a timeout whose callback captures the job id and the job object, and stores the
  handle in \<^verbatim>\<open>job.timerId\<close>.
\<close>

definition executeJobPolling :: "string \<Rightarrow> manager \<Rightarrow> manager" where
  "executeJobPolling jobId s =
     (case map_of (jobs s) jobId of
        None \<Rightarrow> s
      | Some r \<Rightarrow>
          if state (heap s r) \<noteq> POLLING then s
          else updJob r (\<lambda>j. j\<lparr>timerId := Some (fresh s)\<rparr>)
                 (s\<lparr>timers := (timers s)(fresh s \<mapsto> (jobId, r)), fresh := Suc (fresh s)\<rparr>))"

text \<open>
  \<^verbatim>\<open>executeJobCompletion\<close> up to its \<^verbatim>\<open>await\<close>, and its continuation once the promise of
  \<^verbatim>\<open>completeFn\<close> has settled (\<open>Inl\<close>: rejected, \<open>Inr\<close>: resolved). The continuation works on
  the job object that the first half looked up. A call of \<^verbatim>\<open>completeFn\<close> that throws is
  caught by the same try/catch as a rejection.
\<close>

definition executeJobCompletion :: "string \<Rightarrow> step" where
  "executeJobCompletion jobId s =
     (case map_of (jobs s) jobId of
        None \<Rightarrow> returns s
      | Some r \<Rightarrow>
          tryCatch
            (\<lambda>s0. if \<not> truthy (pollResult (heap s0 r))
                  then throws (ThrownError (PollingError ''Poll result is undefined'')) s0
                  else invoke (completeFn (heap s0 r) (trace s0) (pollResult (heap s0 r)))
                         (CompleteCall jobId r) (CompleteFn r (pollResult (heap s0 r))) s0)
            (\<lambda>t. handleJobError jobId (asError t)) s)"

definition executeJobCompletion_resumed :: "string \<Rightarrow> nat \<Rightarrow> thrown + jsval \<Rightarrow> step" where
  "executeJobCompletion_resumed jobId r outcome =
     tryCatch
       (\<lambda>s0. case outcome of
               Inl t \<Rightarrow> throws t s0
             | Inr final \<Rightarrow>
                 andThen
                   (effect (\<lambda>s1. updJob r (\<lambda>j. j\<lparr>state := COMPLETED\<rparr>)
                                   (updJob r (\<lambda>j. j\<lparr>finalResult := final\<rparr>) s1)))
                   (\<lambda>s1. case onComplete (heap s1 r) of
                            None \<Rightarrow> returns s1
                          | Some f \<Rightarrow>
                              tryCatch (callOnComplete r f final) (\<lambda>callbackError. returns) s1) s0)
       (\<lambda>t. handleJobError jobId (asError t))"

text \<open>
  The callback that \<^verbatim>\<open>executeJobPolling\<close> passes to \<^verbatim>\<open>setTimeout\<close>, up to its \<^verbatim>\<open>await\<close>,
  and its continuation once the promise of \<^verbatim>\<open>pollFn\<close> has settled. A resolved poll carries
  the \<^verbatim>\<open>done\<close> flag and the \<^verbatim>\<open>result\<close> field. A call of \<^verbatim>\<open>pollFn\<close> that throws is caught
  by the same try/catch as a rejection.
\<close>

definition pollTimer :: "string \<Rightarrow> nat \<Rightarrow> step" where
  "pollTimer jobId r =
     tryCatch
       (\<lambda>s0. if \<not> truthy (triggerResult (heap s0 r))
             then throws (ThrownError (PollingError ''Trigger result is undefined'')) s0
             else invoke (pollFn (heap s0 r) (trace s0) (triggerResult (heap s0 r)))
                    (PollCall jobId r) (PollFn r (triggerResult (heap s0 r))) s0)
       (\<lambda>t. handleJobError jobId (asError t))"

definition pollTimer_resumed :: "string \<Rightarrow> nat \<Rightarrow> thrown + bool \<times> jsval \<Rightarrow> step" where
  "pollTimer_resumed jobId r outcome =
     tryCatch
       (\<lambda>s0. case outcome of
               Inl t \<Rightarrow> throws t s0
             | Inr (done, result) \<Rightarrow>
                 if done \<and> result \<noteq> JUndefined
                 then andThen (effect (updJob r (\<lambda>j. j\<lparr>pollResult := result\<rparr>)))
                        (notAwaited (executeJobCompletion jobId)) s0
                 else (let s1 = updJob r (\<lambda>j. j\<lparr>retryCount := retryCount j + 1\<rparr>) s0
                       in if exceeds (retryCount (heap s1 r)) (maxRetryAttempts s1)
                          then throws (ThrownError (PollingError
                                 (''Exceeded maximum retry attempts (''
                                    @ maxRetryAttemptsText s1 @ '')''))) s1
                          else returns (executeJobPolling jobId s1)))
       (\<lambda>t. handleJobError jobId (asError t))"

text \<open>
  \<^verbatim>\<open>executeJobTrigger\<close> up to its \<^verbatim>\<open>await\<close> (the state is set to POLLING before
  \<^verbatim>\<open>triggerFn\<close> is called; a call that throws is caught and handled at once, inside
  \<^verbatim>\<open>startJob\<close>), and its continuation once the promise of \<^verbatim>\<open>triggerFn\<close> has settled.
\<close>

definition executeJobTrigger :: "string \<Rightarrow> step" where
  "executeJobTrigger jobId s =
     (case map_of (jobs s) jobId of
        None \<Rightarrow> returns s
      | Some r \<Rightarrow>
          tryCatch
            (andThen (effect (updJob r (\<lambda>j. j\<lparr>state := POLLING\<rparr>)))
               (\<lambda>s1. invoke (triggerFn (heap s1 r) (trace s1))
                       (TriggerCall jobId r) (TriggerFn r) s1))
            (\<lambda>t. handleJobError jobId (asError t)) s)"

definition executeJobTrigger_resumed :: "string \<Rightarrow> nat \<Rightarrow> thrown + jsval \<Rightarrow> step" where
  "executeJobTrigger_resumed jobId r outcome =
     tryCatch
       (\<lambda>s0. case outcome of
               Inl t \<Rightarrow> throws t s0
             | Inr v \<Rightarrow>
                 returns (executeJobPolling jobId (updJob r (\<lambda>j. j\<lparr>triggerResult := v\<rparr>) s0)))
       (\<lambda>t. handleJobError jobId (asError t))"

section \<open>The public operations\<close>

text \<open>
  \<^verbatim>\<open>startJob\<close>. The id that \<^verbatim>\<open>generateJobId\<close> builds from the clock and the random number
  generator is an input. The result is \<open>Inr\<close> of the returned id, or \<open>Inl\<close> of a value
  thrown to the caller.
\<close>

definition startJob ::
  "string \<Rightarrow> (invocation list \<Rightarrow> thrown option) \<Rightarrow>
   (invocation list \<Rightarrow> jsval \<Rightarrow> thrown option) \<Rightarrow>
   (invocation list \<Rightarrow> jsval \<Rightarrow> thrown option) \<Rightarrow>
   (jsval \<Rightarrow> thrown option) option \<Rightarrow> (error \<Rightarrow> thrown option) option \<Rightarrow>
   manager \<Rightarrow> (thrown + string) \<times> manager" where
  "startJob jobId triggerFn' pollFn' completeFn' onComplete' onError' s =
     (let r = fresh s;
          job = \<lparr>job_id = jobId, state = PENDING, triggerFn = triggerFn',
                 pollFn = pollFn', completeFn = completeFn', onComplete = onComplete',
                 onError = onError', triggerResult = JUndefined, pollResult = JUndefined,
                 finalResult = JUndefined, retryCount = 0, error = None, timerId = None\<rparr>;
          s1 = s\<lparr>heap := (heap s)(r := job), fresh := Suc r\<rparr>;
          s2 = s1\<lparr>jobs := AList.update jobId r (jobs s1)\<rparr>
      in case notAwaited (executeJobTrigger jobId) s2 of
           (None, s3) \<Rightarrow> (Inr jobId, s3)
         | (Some t, s3) \<Rightarrow> (Inl t, s3))"

definition abortJob :: "string \<Rightarrow> manager \<Rightarrow> bool \<times> manager" where
  "abortJob jobId s =
     (case map_of (jobs s) jobId of
        None \<Rightarrow> (False, s)
      | Some r \<Rightarrow>
          (let s1 = (case timerId (heap s r) of
                       None \<Rightarrow> s
                     | Some t \<Rightarrow> s\<lparr>timers := (timers s)(t := None)\<rparr>)
           in (True, updJob r (\<lambda>j. j\<lparr>state := ABORTED\<rparr>) s1)))"

definition abortAllJobs :: "manager \<Rightarrow> manager" where
  "abortAllJobs s = fold (\<lambda>jobId s'. snd (abortJob jobId s')) (map fst (jobs s)) s"

definition getJobState :: "string \<Rightarrow> manager \<Rightarrow> JobState option" where
  "getJobState jobId s = map_option (\<lambda>r. state (heap s r)) (map_of (jobs s) jobId)"

definition cleanupJob :: "string \<Rightarrow> manager \<Rightarrow> bool \<times> manager" where
  "cleanupJob jobId s =
     (case map_of (jobs s) jobId of
        None \<Rightarrow> (False, s)
      | Some r \<Rightarrow>
          (let s1 = (if state (heap s r) = POLLING then snd (abortJob jobId s) else s)
           in (True, s1\<lparr>jobs := AList.delete jobId (jobs s1)\<rparr>)))"

definition getAllJobs :: "manager \<Rightarrow> (string \<times> JobState) list" where
  "getAllJobs s = map (\<lambda>(k, r). (job_id (heap s r), state (heap s r))) (jobs s)"

section \<open>The event loop\<close>

text \<open>
  What the runtime does to the manager: a promise of a stage function settles, or a timeout
  fires. An event for a handle that is not pending (a cleared timer, a settled promise, a
  settlement of the wrong kind) does nothing.
\<close>

datatype event =
    TriggerSettles nat "thrown + jsval"
  | PollSettles nat "thrown + bool \<times> jsval"
  | CompleteSettles nat "thrown + jsval"
  | TimerFires nat

fun deliver :: "event \<Rightarrow> step" where
  "deliver (TriggerSettles c outcome) s =
     (case calls s c of
        Some (TriggerCall jobId r) \<Rightarrow>
          executeJobTrigger_resumed jobId r outcome (s\<lparr>calls := (calls s)(c := None)\<rparr>)
      | _ \<Rightarrow> returns s)"
| "deliver (PollSettles c outcome) s =
     (case calls s c of
        Some (PollCall jobId r) \<Rightarrow>
          pollTimer_resumed jobId r outcome (s\<lparr>calls := (calls s)(c := None)\<rparr>)
      | _ \<Rightarrow> returns s)"
| "deliver (CompleteSettles c outcome) s =
     (case calls s c of
        Some (CompleteCall jobId r) \<Rightarrow>
          executeJobCompletion_resumed jobId r outcome (s\<lparr>calls := (calls s)(c := None)\<rparr>)
      | _ \<Rightarrow> returns s)"
| "deliver (TimerFires t) s =
     (case timers s t of
        Some (jobId, r) \<Rightarrow> pollTimer jobId r (s\<lparr>timers := (timers s)(t := None)\<rparr>)
      | None \<Rightarrow> returns s)"

text \<open>
  The constructor: \<^verbatim>\<open>options?.maxRetryAttempts ?? 10\<close>. A ceiling that is given comes with
  its rendering.
\<close>

definition newManager :: "(jsnumber \<times> string) option \<Rightarrow> manager" where
  "newManager opts =
     \<lparr>jobs = [],
      maxRetryAttempts = (case opts of None \<Rightarrow> Finite 10 | Some (n, text) \<Rightarrow> n),
      maxRetryAttemptsText = (case opts of None \<Rightarrow> ''10'' | Some (n, text) \<Rightarrow> text),
      heap = (\<lambda>r. \<lparr>job_id = [], state = PENDING, triggerFn = (\<lambda>h. None),
                   pollFn = (\<lambda>h v. None), completeFn = (\<lambda>h v. None),
                   onComplete = None, onError = None,
                   triggerResult = JUndefined, pollResult = JUndefined,
                   finalResult = JUndefined, retryCount = 0, error = None, timerId = None\<rparr>),
      timers = (\<lambda>t. None), calls = (\<lambda>c. None), fresh = 0, trace = []\<rparr>"

section \<open>Runs\<close>

text \<open>
  A run is a sequence of calls of the public operations by the host and of events of the
  runtime, applied one after the other.
\<close>

datatype action =
    StartJob string "invocation list \<Rightarrow> thrown option"
      "invocation list \<Rightarrow> jsval \<Rightarrow> thrown option"
      "invocation list \<Rightarrow> jsval \<Rightarrow> thrown option"
      "(jsval \<Rightarrow> thrown option) option" "(error \<Rightarrow> thrown option) option"
  | AbortJob string
  | AbortAllJobs
  | CleanupJob string
  | Runtime event

fun perform :: "action \<Rightarrow> manager \<Rightarrow> manager" where
  "perform (StartJob jobId tf pf cf c e) s = snd (startJob jobId tf pf cf c e s)"
| "perform (AbortJob jobId) s = snd (abortJob jobId s)"
| "perform AbortAllJobs s = abortAllJobs s"
| "perform (CleanupJob jobId) s = snd (cleanupJob jobId s)"
| "perform (Runtime e) s = snd (deliver e s)"

definition run :: "action list \<Rightarrow> manager \<Rightarrow> manager" where
  "run acts s = fold perform acts s"

text \<open>
  One round per element of the list: the timeout named by the job's \<^verbatim>\<open>timerId\<close> fires,
  and the poll call it starts (which gets the next handle) resolves to \<^verbatim>\<open>done: false\<close> with
  that element as its \<^verbatim>\<open>result\<close> field.
\<close>

fun notDoneRounds :: "nat \<Rightarrow> jsval list \<Rightarrow> manager \<Rightarrow> manager" where
  "notDoneRounds r [] s = s"
| "notDoneRounds r (res # rest) s =
     (case timerId (heap s r) of
        None \<Rightarrow> s
      | Some t \<Rightarrow>
          notDoneRounds r rest
            (run [Runtime (TimerFires t), Runtime (PollSettles (fresh s) (Inr (False, res)))] s))"

fun isCompleteFn :: "invocation \<Rightarrow> bool" where
  "isCompleteFn (CompleteFn r v) = True"
| "isCompleteFn i = False"

text \<open>
  Stage functions declared \<^verbatim>\<open>async\<close>: every call returns a promise. A trigger function that
  throws before it returns one. Two host callbacks: one that returns, one that throws.
\<close>

definition asyncTrigger :: "invocation list \<Rightarrow> thrown option" where
  "asyncTrigger h = None"

definition asyncStage :: "invocation list \<Rightarrow> jsval \<Rightarrow> thrown option" where
  "asyncStage h v = None"

definition throwingTrigger :: "invocation list \<Rightarrow> thrown option" where
  "throwingTrigger h = Some (ThrownError (Error ''no connection''))"

definition returnsNormally :: "'a \<Rightarrow> thrown option" where
  "returnsNormally x = None"

definition alwaysThrows :: "'a \<Rightarrow> thrown option" where
  "alwaysThrows x = Some (ThrownError (Error ''callback failed''))"

text \<open>
  A manager with retry ceiling 2 and one job, at three moments of its life: trigger awaited
  (call 1), first timeout pending (timer 2), and first poll awaited (call 3).
\<close>

definition demoManager :: manager where
  "demoManager = newManager (Some (Finite 2, ''2''))"

definition demoStarted :: manager where
  "demoStarted =
     run [StartJob ''job_1'' asyncTrigger asyncStage asyncStage
            (Some returnsNormally) (Some returnsNormally)] demoManager"

definition demoPolling :: manager where
  "demoPolling = run [Runtime (TriggerSettles 1 (Inr (JStr ''trk-1'')))] demoStarted"

definition demoPollAwaited :: manager where
  "demoPollAwaited = run [Runtime (TimerFires 2)] demoPolling"

text \<open>
  The same job with callbacks that throw, waiting for its completion call (call 4) after
  the poll resolved to \<^verbatim>\<open>{done: true, result: 42}\<close>; and the first job cleaned up while its
  trigger is awaited, then its trigger rejecting.
\<close>

definition demoThrowing :: manager where
  "demoThrowing =
     run [StartJob ''job_1'' asyncTrigger asyncStage asyncStage
            (Some alwaysThrows) (Some alwaysThrows),
          Runtime (TriggerSettles 1 (Inr (JStr ''trk-1''))),
          Runtime (TimerFires 2),
          Runtime (PollSettles 3 (Inr (True, JNum 42)))] demoManager"

definition demoCleanedUp :: manager where
  "demoCleanedUp = run [CleanupJob ''job_1''] demoStarted"

definition demoDropped :: manager where
  "demoDropped =
     run [Runtime (TriggerSettles 1 (Inl (ThrownError (Error ''boom''))))] demoCleanedUp"

text \<open>
  The first job when its first poll resolves to \<^verbatim>\<open>{done: true, result: 0}\<close>; aborted while
  its first poll is awaited, the poll then resolving to \<^verbatim>\<open>{done: true, result: 42}\<close> and the
  completion to \<^verbatim>\<open>"ok:42"\<close>; and aborted while its trigger is awaited, the trigger then
  rejecting.
\<close>

definition demoFalsyPoll :: manager where
  "demoFalsyPoll = run [Runtime (PollSettles 3 (Inr (True, JNum 0)))] demoPollAwaited"

definition demoAbortedPollAwaited :: manager where
  "demoAbortedPollAwaited = run [AbortJob ''job_1''] demoPollAwaited"

definition demoCompletedAfterAbort :: manager where
  "demoCompletedAfterAbort =
     run [Runtime (PollSettles 3 (Inr (True, JNum 42))),
          Runtime (CompleteSettles 4 (Inr (JStr ''ok:42'')))] demoAbortedPollAwaited"

definition demoAbortedStarted :: manager where
  "demoAbortedStarted = run [AbortJob ''job_1''] demoStarted"

definition demoFailedAfterAbort :: manager where
  "demoFailedAfterAbort =
     run [Runtime (TriggerSettles 1 (Inl (ThrownError (Error ''boom''))))] demoAbortedStarted"

text \<open>
  The first job when its trigger resolves to \<^verbatim>\<open>undefined\<close> and its first timeout fires; and a
  job whose trigger function throws before it returns a promise.
\<close>

definition demoUndefinedTrigger :: manager where
  "demoUndefinedTrigger =
     run [Runtime (TriggerSettles 1 (Inr JUndefined)), Runtime (TimerFires 2)] demoStarted"

definition demoTriggerThrew :: manager where
  "demoTriggerThrew =
     run [StartJob ''job_1'' throwingTrigger asyncStage asyncStage
            (Some returnsNormally) (Some returnsNormally)] demoManager"

text \<open>
  A manager with retry ceiling -1 and one job whose trigger resolves to \<^verbatim>\<open>"trk-1"\<close> and
  whose first poll resolves to \<^verbatim>\<open>{done: false}\<close>.
\<close>

definition demoNegativeCeiling :: manager where
  "demoNegativeCeiling =
     run [StartJob ''job_1'' asyncTrigger asyncStage asyncStage
            (Some returnsNormally) (Some returnsNormally),
          Runtime (TriggerSettles 1 (Inr (JStr ''trk-1''))),
          Runtime (TimerFires 2),
          Runtime (PollSettles 3 (Inr (False, JUndefined)))]
       (newManager (Some (Finite (- 1), ''-1'')))"

text \<open>No registered job is in state PENDING.\<close>

definition noPending :: "manager \<Rightarrow> bool" where
  "noPending s = list_all (\<lambda>(k, r). state (heap s r) \<noteq> PENDING) (jobs s)"

text \<open>
  From \<open>s\<close> to \<open>s'\<close> no job was registered and no job object became PENDING.
\<close>

definition keepsNonPending :: "manager \<Rightarrow> manager \<Rightarrow> bool" where
  "keepsNonPending s s' =
     (set (jobs s') \<subseteq> set (jobs s) \<and>
      (\<forall>r. state (heap s' r) = PENDING \<longrightarrow> state (heap s r) = PENDING))"

section \<open>Basic facts about the execution steps\<close>

lemmas step_defs = returns_def throws_def effect_def andThen_def tryCatch_def notAwaited_def
  updJob_def invoke_def callOnComplete_def callOnError_def

lemmas op_defs = handleJobError_def executeJobPolling_def executeJobCompletion_def
  executeJobCompletion_resumed_def pollTimer_def pollTimer_resumed_def executeJobTrigger_def
  executeJobTrigger_resumed_def startJob_def abortJob_def cleanupJob_def

lemmas demo_defs = demoStarted_def demoPolling_def demoPollAwaited_def
  demoThrowing_def demoCleanedUp_def demoDropped_def demoFalsyPoll_def
  demoAbortedPollAwaited_def demoCompletedAfterAbort_def demoAbortedStarted_def
  demoFailedAfterAbort_def
  demoUndefinedTrigger_def demoTriggerThrew_def demoManager_def demoNegativeCeiling_def
  run_def newManager_def returnsNormally_def alwaysThrows_def asyncTrigger_def
  asyncStage_def throwingTrigger_def

lemma tryCatch_returns:
  assumes "\<And>t s'. fst (handler t s') = None"
  shows "fst (tryCatch body handler s) = None"
  using assms by (simp add: tryCatch_def split: prod.splits option.splits)

lemma handleJobError_returns: "fst (handleJobError jobId err s) = None"
  by (simp add: handleJobError_def step_defs split: option.splits prod.splits)

lemma handleJobError_unregistered:
  "map_of (jobs s) jobId = None \<Longrightarrow> handleJobError jobId err s = (None, s)"
  by (simp add: handleJobError_def returns_def)

lemma handleJobError_registered:
  "map_of (jobs s) jobId = Some r \<Longrightarrow>
   handleJobError jobId err s =
     (None, s\<lparr>heap := (heap s)(r := (heap s r)\<lparr>state := FAILED, error := Some err\<rparr>),
              trace := trace s @ (case onError (heap s r) of
                                    None \<Rightarrow> []
                                  | Some f \<Rightarrow> [OnError r err])\<rparr>)"
  by (simp add: handleJobError_def step_defs split: option.splits prod.splits)

lemma pollTimer_resumed_notDone:
  "\<not> (done \<and> res \<noteq> JUndefined) \<Longrightarrow>
   pollTimer_resumed jobId r (Inr (done, res)) s =
     (let s1 = s\<lparr>heap := (heap s)(r := (heap s r)\<lparr>retryCount := retryCount (heap s r) + 1\<rparr>)\<rparr>
      in if exceeds (retryCount (heap s r) + 1) (maxRetryAttempts s)
         then handleJobError jobId
                (PollingError (''Exceeded maximum retry attempts (''
                                 @ maxRetryAttemptsText s @ '')'')) s1
         else (None, executeJobPolling jobId s1))"
  by (cases "done")
     (simp_all add: pollTimer_resumed_def tryCatch_def throws_def returns_def updJob_def Let_def)

lemma deliver_returns: "fst (deliver e s) = None"
proof (cases e)
  case (TriggerSettles c outcome)
  then show ?thesis
    by (simp add: executeJobTrigger_resumed_def returns_def tryCatch_returns
        handleJobError_returns split: option.splits call.splits)
next
  case (PollSettles c outcome)
  then show ?thesis
    by (simp add: pollTimer_resumed_def returns_def tryCatch_returns handleJobError_returns
        split: option.splits call.splits)
next
  case (CompleteSettles c outcome)
  then show ?thesis
    by (simp add: executeJobCompletion_resumed_def returns_def tryCatch_returns
        handleJobError_returns split: option.splits call.splits)
next
  case (TimerFires t)
  then show ?thesis
    by (simp add: pollTimer_def returns_def tryCatch_returns handleJobError_returns
        split: option.splits prod.splits)
qed

text \<open>
  \<^verbatim>\<open>startJob\<close> when the call of the trigger function returns a promise, and when it throws.
\<close>

lemma startJob_async:
  assumes "tf (trace s) = None"
  shows "startJob jobId tf pf cf onC onE s =
     (Inr jobId,
      s\<lparr>heap := (heap s)(fresh s :=
               \<lparr>job_id = jobId, state = POLLING, triggerFn = tf, pollFn = pf,
                completeFn = cf, onComplete = onC, onError = onE,
                triggerResult = JUndefined, pollResult = JUndefined,
                finalResult = JUndefined, retryCount = 0, error = None, timerId = None\<rparr>),
        jobs := AList.update jobId (fresh s) (jobs s),
        calls := (calls s)(Suc (fresh s) \<mapsto> TriggerCall jobId (fresh s)),
        fresh := Suc (Suc (fresh s)),
        trace := trace s @ [TriggerFn (fresh s)]\<rparr>)"
  using assms
  by (simp add: startJob_def executeJobTrigger_def Let_def step_defs update_conv')

lemma startJob_throws:
  assumes "tf (trace s) = Some t"
  shows "startJob jobId tf pf cf onC onE s =
     (Inr jobId,
      s\<lparr>heap := (heap s)(fresh s :=
               \<lparr>job_id = jobId, state = FAILED, triggerFn = tf, pollFn = pf,
                completeFn = cf, onComplete = onC, onError = onE,
                triggerResult = JUndefined, pollResult = JUndefined,
                finalResult = JUndefined, retryCount = 0, error = Some (asError t),
                timerId = None\<rparr>),
        jobs := AList.update jobId (fresh s) (jobs s),
        fresh := Suc (fresh s),
        trace := trace s @ [TriggerFn (fresh s)] @
                 (case onE of None \<Rightarrow> [] | Some f \<Rightarrow> [OnError (fresh s) (asError t)])\<rparr>)"
proof (cases onE)
  case None
  then show ?thesis
    using assms
    by (simp add: startJob_def executeJobTrigger_def handleJobError_def Let_def step_defs
        update_conv')
next
  case (Some f)
  then show ?thesis
    using assms
    by (cases "f (asError t)")
       (simp_all add: startJob_def executeJobTrigger_def handleJobError_def Let_def step_defs
         update_conv')
qed

text \<open>
  The successful path: a poll that is done with a truthy result stores it and starts the
  completion call; a completion that resolves stores the final result, marks the job
  COMPLETED and calls \<^verbatim>\<open>onComplete\<close>. After an abort, \<^verbatim>\<open>executeJobPolling\<close> sets no timeout.
\<close>

lemma poll_done_truthy_starts_completion:
  assumes "map_of (jobs s) jobId = Some r" "truthy res"
    "completeFn (heap s r) (trace s) res = None"
  shows "pollTimer_resumed jobId r (Inr (True, res)) s =
     (None, s\<lparr>heap := (heap s)(r := (heap s r)\<lparr>pollResult := res\<rparr>),
              calls := (calls s)(fresh s \<mapsto> CompleteCall jobId r),
              fresh := Suc (fresh s),
              trace := trace s @ [CompleteFn r res]\<rparr>)"
proof -
  have "res \<noteq> JUndefined" using assms(2) by auto
  then show ?thesis
    using assms
    by (simp add: pollTimer_resumed_def executeJobCompletion_def step_defs)
qed

lemma completion_success:
  "executeJobCompletion_resumed jobId r (Inr v) s =
     (None, s\<lparr>heap := (heap s)(r := (heap s r)\<lparr>finalResult := v, state := COMPLETED\<rparr>),
              trace := trace s @ (case onComplete (heap s r) of
                                    None \<Rightarrow> []
                                  | Some f \<Rightarrow> [OnComplete r v])\<rparr>)"
  by (simp add: executeJobCompletion_resumed_def step_defs split: option.splits prod.splits)

lemma abort_stops_polling:
  assumes "map_of (jobs s) jobId = Some r"
  shows "executeJobPolling jobId (snd (abortJob jobId s)) = snd (abortJob jobId s)"
  using assms
  by (simp add: executeJobPolling_def abortJob_def updJob_def Let_def split: option.splits)

section \<open>No registered job is PENDING\<close>

text \<open>
  Every step keeps non-PENDING job objects non-PENDING and registers no job, except
  \<^verbatim>\<open>startJob\<close>, whose new job has left PENDING when it returns. So no run from a new
  manager reaches a state in which a registered job is PENDING.
\<close>

lemma keeps_refl: "keepsNonPending s s"
  by (simp add: keepsNonPending_def)

lemma keeps_trans:
  "keepsNonPending s s' \<Longrightarrow> keepsNonPending s' s'' \<Longrightarrow> keepsNonPending s s''"
  by (auto simp add: keepsNonPending_def)

lemma keeps_frame:
  "jobs s' = jobs s \<Longrightarrow> heap s' = heap s \<Longrightarrow> keepsNonPending s s'"
  by (simp add: keepsNonPending_def)

lemma keeps_updJob:
  "state (f (heap s r)) \<noteq> PENDING \<or> state (f (heap s r)) = state (heap s r) \<Longrightarrow>
   keepsNonPending s (updJob r f s)"
  by (auto simp add: keepsNonPending_def updJob_def)

lemma keeps_tryCatch:
  assumes "\<And>s0. keepsNonPending s0 (snd (body s0))"
    and "\<And>t s0. keepsNonPending s0 (snd (handler t s0))"
  shows "keepsNonPending s (snd (tryCatch body handler s))"
proof (cases "body s")
  case (Pair x s')
  have b: "keepsNonPending s s'" using assms(1) [of s] Pair by simp
  show ?thesis
  proof (cases x)
    case None
    then show ?thesis using Pair b by (simp add: tryCatch_def)
  next
    case (Some t)
    then show ?thesis
      using Pair keeps_trans [OF b assms(2) [of s' t]] by (simp add: tryCatch_def)
  qed
qed

lemma keeps_andThen:
  assumes "keepsNonPending s (snd (a s))"
    and "\<And>s0. keepsNonPending s0 (snd (b s0))"
  shows "keepsNonPending s (snd (andThen a b s))"
proof (cases "a s")
  case (Pair x s')
  have k: "keepsNonPending s s'" using assms(1) Pair by simp
  show ?thesis
  proof (cases x)
    case None
    then show ?thesis
      using Pair keeps_trans [OF k assms(2) [of s']] by (simp add: andThen_def)
  next
    case (Some t)
    then show ?thesis using Pair k by (simp add: andThen_def)
  qed
qed

lemma keeps_invoke: "keepsNonPending s (snd (invoke x c i s))"
  by (cases x) (simp_all add: invoke_def keepsNonPending_def)

lemma keeps_handleJobError: "keepsNonPending s (snd (handleJobError jobId err s))"
proof (cases "map_of (jobs s) jobId")
  case None
  then show ?thesis by (simp add: handleJobError_unregistered keeps_refl)
next
  case (Some r)
  then show ?thesis
    by (simp add: handleJobError_registered keepsNonPending_def)
qed

lemma keeps_executeJobPolling: "keepsNonPending s (executeJobPolling jobId s)"
  by (simp add: executeJobPolling_def keepsNonPending_def updJob_def split: option.splits)

lemma keeps_executeJobCompletion: "keepsNonPending s (snd (executeJobCompletion jobId s))"
proof (cases "map_of (jobs s) jobId")
  case None
  then show ?thesis by (simp add: executeJobCompletion_def returns_def keeps_refl)
next
  case (Some r)
  have "keepsNonPending s (snd (tryCatch
            (\<lambda>s0. if \<not> truthy (pollResult (heap s0 r))
                  then throws (ThrownError (PollingError ''Poll result is undefined'')) s0
                  else invoke (completeFn (heap s0 r) (trace s0) (pollResult (heap s0 r)))
                         (CompleteCall jobId r) (CompleteFn r (pollResult (heap s0 r))) s0)
            (\<lambda>t. handleJobError jobId (asError t)) s))"
    by (rule keeps_tryCatch) (simp_all add: throws_def keeps_refl keeps_invoke keeps_handleJobError)
  then show ?thesis using Some by (simp add: executeJobCompletion_def)
qed

lemma keeps_executeJobCompletion_resumed:
  "keepsNonPending s (snd (executeJobCompletion_resumed jobId r outcome s))"
  unfolding executeJobCompletion_resumed_def
proof (rule keeps_tryCatch)
  fix s0
  show "keepsNonPending s0 (snd (case outcome of
               Inl t \<Rightarrow> throws t s0
             | Inr final \<Rightarrow>
                 andThen
                   (effect (\<lambda>s1. updJob r (\<lambda>j. j\<lparr>state := COMPLETED\<rparr>)
                                   (updJob r (\<lambda>j. j\<lparr>finalResult := final\<rparr>) s1)))
                   (\<lambda>s1. case onComplete (heap s1 r) of
                            None \<Rightarrow> returns s1
                          | Some f \<Rightarrow>
                              tryCatch (callOnComplete r f final) (\<lambda>callbackError. returns) s1) s0))"
  proof (cases outcome)
    case (Inl t)
    then show ?thesis by (simp add: throws_def keeps_refl)
  next
    case (Inr final)
    then show ?thesis
      by (simp add: step_defs keepsNonPending_def split: option.splits prod.splits)
  qed
next
  fix t s0
  show "keepsNonPending s0 (snd (handleJobError jobId (asError t) s0))"
    by (rule keeps_handleJobError)
qed

lemma keeps_pollTimer: "keepsNonPending s (snd (pollTimer jobId r s))"
  unfolding pollTimer_def
  by (rule keeps_tryCatch) (simp_all add: throws_def keeps_refl keeps_invoke keeps_handleJobError)

lemma keeps_pollTimer_resumed:
  "keepsNonPending s (snd (pollTimer_resumed jobId r outcome s))"
  unfolding pollTimer_resumed_def
proof (rule keeps_tryCatch)
  fix s0
  show "keepsNonPending s0 (snd (case outcome of
               Inl t \<Rightarrow> throws t s0
             | Inr (done, result) \<Rightarrow>
                 if done \<and> result \<noteq> JUndefined
                 then andThen (effect (updJob r (\<lambda>j. j\<lparr>pollResult := result\<rparr>)))
                        (notAwaited (executeJobCompletion jobId)) s0
                 else (let s1 = updJob r (\<lambda>j. j\<lparr>retryCount := retryCount j + 1\<rparr>) s0
                       in if exceeds (retryCount (heap s1 r)) (maxRetryAttempts s1)
                          then throws (ThrownError (PollingError
                                 (''Exceeded maximum retry attempts (''
                                    @ maxRetryAttemptsText s1 @ '')''))) s1
                          else returns (executeJobPolling jobId s1))))"
  proof (cases outcome)
    case (Inl t)
    then show ?thesis by (simp add: throws_def keeps_refl)
  next
    case (Inr resp)
    obtain dn result where resp: "resp = (dn, result)" by (cases resp)
    show ?thesis
    proof (cases "dn \<and> result \<noteq> JUndefined")
      case True
      have "keepsNonPending s0 (snd (andThen (effect (updJob r (\<lambda>j. j\<lparr>pollResult := result\<rparr>)))
                        (notAwaited (executeJobCompletion jobId)) s0))"
        by (rule keeps_andThen)
           (simp_all add: effect_def notAwaited_def keeps_updJob keeps_executeJobCompletion)
      then show ?thesis using True Inr resp by simp
    next
      case False
      let ?s1 = "updJob r (\<lambda>j. j\<lparr>retryCount := retryCount j + 1\<rparr>) s0"
      have k1: "keepsNonPending s0 ?s1" by (simp add: keeps_updJob)
      have k2: "keepsNonPending s0 (executeJobPolling jobId ?s1)"
        by (rule keeps_trans [OF k1 keeps_executeJobPolling])
      show ?thesis using False Inr resp k1 k2
        by (auto simp add: Let_def throws_def returns_def)
    qed
  qed
next
  fix t s0
  show "keepsNonPending s0 (snd (handleJobError jobId (asError t) s0))"
    by (rule keeps_handleJobError)
qed

lemma keeps_executeJobTrigger_resumed:
  "keepsNonPending s (snd (executeJobTrigger_resumed jobId r outcome s))"
  unfolding executeJobTrigger_resumed_def
proof (rule keeps_tryCatch)
  fix s0
  show "keepsNonPending s0 (snd (case outcome of
               Inl t \<Rightarrow> throws t s0
             | Inr v \<Rightarrow>
                 returns (executeJobPolling jobId (updJob r (\<lambda>j. j\<lparr>triggerResult := v\<rparr>) s0))))"
  proof (cases outcome)
    case (Inl t)
    then show ?thesis by (simp add: throws_def keeps_refl)
  next
    case (Inr v)
    have k1: "keepsNonPending s0 (updJob r (\<lambda>j. j\<lparr>triggerResult := v\<rparr>) s0)"
      by (simp add: keeps_updJob)
    show ?thesis
      using Inr keeps_trans [OF k1 keeps_executeJobPolling] by (simp add: returns_def)
  qed
next
  fix t s0
  show "keepsNonPending s0 (snd (handleJobError jobId (asError t) s0))"
    by (rule keeps_handleJobError)
qed

lemma keeps_deliver: "keepsNonPending s (snd (deliver e s))"
proof (cases e)
  case (TriggerSettles c outcome)
  have f: "keepsNonPending s (s\<lparr>calls := (calls s)(c := None)\<rparr>)" by (simp add: keeps_frame)
  show ?thesis
    using TriggerSettles keeps_refl keeps_trans [OF f keeps_executeJobTrigger_resumed]
    by (simp add: returns_def split: option.splits call.splits)
next
  case (PollSettles c outcome)
  have f: "keepsNonPending s (s\<lparr>calls := (calls s)(c := None)\<rparr>)" by (simp add: keeps_frame)
  show ?thesis
    using PollSettles keeps_refl keeps_trans [OF f keeps_pollTimer_resumed]
    by (simp add: returns_def split: option.splits call.splits)
next
  case (CompleteSettles c outcome)
  have f: "keepsNonPending s (s\<lparr>calls := (calls s)(c := None)\<rparr>)" by (simp add: keeps_frame)
  show ?thesis
    using CompleteSettles keeps_refl keeps_trans [OF f keeps_executeJobCompletion_resumed]
    by (simp add: returns_def split: option.splits call.splits)
next
  case (TimerFires t)
  have f: "keepsNonPending s (s\<lparr>timers := (timers s)(t := None)\<rparr>)" by (simp add: keeps_frame)
  show ?thesis
    using TimerFires keeps_refl keeps_trans [OF f keeps_pollTimer]
    by (simp add: returns_def split: option.splits prod.splits)
qed

lemma keeps_abortJob: "keepsNonPending s (snd (abortJob jobId s))"
  by (simp add: abortJob_def keepsNonPending_def updJob_def Let_def split: option.splits)

lemma keeps_abortAll:
  "keepsNonPending s (fold (\<lambda>jobId s'. snd (abortJob jobId s')) ids s)"
proof (induction ids arbitrary: s)
  case Nil
  then show ?case by (simp add: keeps_refl)
next
  case (Cons a ids)
  show ?case
    using keeps_trans [OF keeps_abortJob Cons.IH] by simp
qed

lemma keeps_cleanupJob: "keepsNonPending s (snd (cleanupJob jobId s))"
proof (cases "map_of (jobs s) jobId")
  case None
  then show ?thesis by (simp add: cleanupJob_def keeps_refl)
next
  case (Some r)
  let ?s1 = "if state (heap s r) = POLLING then snd (abortJob jobId s) else s"
  have k1: "keepsNonPending s ?s1" by (simp add: keeps_abortJob keeps_refl)
  have k2: "keepsNonPending ?s1 (?s1\<lparr>jobs := AList.delete jobId (jobs ?s1)\<rparr>)"
    by (auto simp add: keepsNonPending_def AList.delete_eq)
  show ?thesis
    using Some keeps_trans [OF k1 k2] by (simp add: cleanupJob_def Let_def)
qed

lemma noPending_keeps: "keepsNonPending s s' \<Longrightarrow> noPending s \<Longrightarrow> noPending s'"
  unfolding keepsNonPending_def noPending_def list_all_iff by fastforce

lemma set_update_subset:
  "set (AList.update k v al) \<subseteq> insert (k, v) (set al)"
  by (induction al) auto

lemma noPending_startJob:
  assumes "noPending s"
  shows "noPending (snd (startJob jobId tf pf cf onC onE s))"
proof (cases "tf (trace s)")
  case None
  have "set (AList.update jobId (fresh s) (jobs s)) \<subseteq> insert (jobId, fresh s) (set (jobs s))"
    by (rule set_update_subset)
  then show ?thesis
    using assms
    by (auto simp add: startJob_async [where tf = tf and s = s, OF None] noPending_def
        list_all_iff)
next
  case (Some t)
  have "set (AList.update jobId (fresh s) (jobs s)) \<subseteq> insert (jobId, fresh s) (set (jobs s))"
    by (rule set_update_subset)
  then show ?thesis
    using assms
    by (auto simp add: startJob_throws [where tf = tf and s = s, OF Some] noPending_def
        list_all_iff)
qed

lemma noPending_perform: "noPending s \<Longrightarrow> noPending (perform a s)"
proof (cases a)
  case (StartJob jobId tf pf cf onC onE)
  assume "noPending s"
  then show ?thesis using StartJob by (simp add: noPending_startJob)
next
  case (AbortJob jobId)
  assume "noPending s"
  then show ?thesis using AbortJob noPending_keeps [OF keeps_abortJob] by simp
next
  case AbortAllJobs
  assume "noPending s"
  then show ?thesis
    using AbortAllJobs noPending_keeps [OF keeps_abortAll] by (simp add: abortAllJobs_def)
next
  case (CleanupJob jobId)
  assume "noPending s"
  then show ?thesis using CleanupJob noPending_keeps [OF keeps_cleanupJob] by simp
next
  case (Runtime e)
  assume "noPending s"
  then show ?thesis using Runtime noPending_keeps [OF keeps_deliver] by simp
qed

lemma noPending_run: "noPending s \<Longrightarrow> noPending (run acts s)"
  unfolding run_def
  by (induction acts arbitrary: s) (simp_all add: noPending_perform)

lemma noPending_getJobState: "noPending s \<Longrightarrow> getJobState jobId s \<noteq> Some PENDING"
  by (auto simp add: noPending_def getJobState_def list_all_iff dest!: map_of_SomeD)

lemma never_PENDING: "getJobState jobId (run acts (newManager opts)) \<noteq> Some PENDING"
  by (rule noPending_getJobState, rule noPending_run) (simp add: noPending_def newManager_def)

section \<open>Single steps, written out\<close>

text \<open>
  What \<^verbatim>\<open>startJob\<close> does before it starts the trigger; a trigger that resolves; a start
  followed by a resolving trigger; a timeout that fires on a falsy trigger result; a poll
  function and a complete function that throw instead of returning a promise.
\<close>

lemma startJob_created:
  "startJob jobId tf pf cf onC onE s =
     (Inr jobId,
      snd (executeJobTrigger jobId
        (s\<lparr>heap := (heap s)(fresh s :=
               \<lparr>job_id = jobId, state = PENDING, triggerFn = tf, pollFn = pf,
                completeFn = cf, onComplete = onC, onError = onE,
                triggerResult = JUndefined, pollResult = JUndefined,
                finalResult = JUndefined, retryCount = 0, error = None, timerId = None\<rparr>),
            fresh := Suc (fresh s), jobs := AList.update jobId (fresh s) (jobs s)\<rparr>)))"
  by (simp add: startJob_def notAwaited_def Let_def)

lemma trigger_resolved:
  assumes "calls s c = Some (TriggerCall jobId r)"
  shows "snd (deliver (TriggerSettles c (Inr v)) s) =
     executeJobPolling jobId
       (s\<lparr>calls := (calls s)(c := None),
          heap := (heap s)(r := (heap s r)\<lparr>triggerResult := v\<rparr>)\<rparr>)"
  using assms by (simp add: executeJobTrigger_resumed_def step_defs)

lemma trigger_resolved_facts:
  assumes "calls s c = Some (TriggerCall jobId r)"
  shows "triggerResult (heap (snd (deliver (TriggerSettles c (Inr v)) s)) r) = v"
    and "\<forall>x. state (heap (snd (deliver (TriggerSettles c (Inr v)) s)) x) = state (heap s x)"
    and "jobs (snd (deliver (TriggerSettles c (Inr v)) s)) = jobs s"
    and "\<forall>q. map_of (jobs s) jobId = Some q \<and> state (heap s q) = POLLING \<longrightarrow>
           timers (snd (deliver (TriggerSettles c (Inr v)) s)) = (timers s)(fresh s \<mapsto> (jobId, q)) \<and>
           timerId (heap (snd (deliver (TriggerSettles c (Inr v)) s)) q) = Some (fresh s)"
    and "\<not> (\<exists>q. map_of (jobs s) jobId = Some q \<and> state (heap s q) = POLLING) \<longrightarrow>
           timers (snd (deliver (TriggerSettles c (Inr v)) s)) = timers s"
  unfolding trigger_resolved [OF assms]
  by (auto simp add: executeJobPolling_def updJob_def split: option.splits)

lemma started_and_triggered:
  assumes "tf (trace s) = None"
  shows "run [StartJob jobId tf pf cf onC onE, Runtime (TriggerSettles (Suc (fresh s)) (Inr v))] s =
      s\<lparr>heap := (heap s)(fresh s :=
               \<lparr>job_id = jobId, state = POLLING, triggerFn = tf, pollFn = pf,
                completeFn = cf, onComplete = onC, onError = onE,
                triggerResult = v, pollResult = JUndefined,
                finalResult = JUndefined, retryCount = 0, error = None,
                timerId = Some (Suc (Suc (fresh s)))\<rparr>),
        jobs := AList.update jobId (fresh s) (jobs s),
        timers := (timers s)(Suc (Suc (fresh s)) \<mapsto> (jobId, fresh s)),
        calls := (calls s)(Suc (fresh s) := None),
        fresh := Suc (Suc (Suc (fresh s))),
        trace := trace s @ [TriggerFn (fresh s)]\<rparr>"
  by (simp add: run_def startJob_async [where tf = tf and s = s, OF assms]
      executeJobTrigger_resumed_def executeJobPolling_def step_defs update_conv')

lemma falsy_trigger_timer:
  assumes "\<not> truthy (triggerResult (heap s r))" "timers s tm = Some (jobId, r)"
    "map_of (jobs s) jobId = Some r"
  shows "snd (deliver (TimerFires tm) s) =
     s\<lparr>timers := (timers s)(tm := None),
       heap := (heap s)(r := (heap s r)\<lparr>state := FAILED,
                 error := Some (PollingError ''Trigger result is undefined'')\<rparr>),
       trace := trace s @ (case onError (heap s r) of None \<Rightarrow> []
                  | Some f \<Rightarrow> [OnError r (PollingError ''Trigger result is undefined'')])\<rparr>"
proof -
  have "snd (deliver (TimerFires tm) s) =
      snd (handleJobError jobId (PollingError ''Trigger result is undefined'')
             (s\<lparr>timers := (timers s)(tm := None)\<rparr>))"
    using assms(1,2) by (simp add: pollTimer_def step_defs)
  also have "\<dots> = s\<lparr>timers := (timers s)(tm := None),
       heap := (heap s)(r := (heap s r)\<lparr>state := FAILED,
                 error := Some (PollingError ''Trigger result is undefined'')\<rparr>),
       trace := trace s @ (case onError (heap s r) of None \<Rightarrow> []
                  | Some f \<Rightarrow> [OnError r (PollingError ''Trigger result is undefined'')])\<rparr>"
    using assms(3) by (subst handleJobError_registered [where r = r]) simp_all
  finally show ?thesis .
qed

lemma pollFn_throws:
  assumes "timers s tm = Some (jobId, r)" "map_of (jobs s) jobId = Some r"
    "truthy (triggerResult (heap s r))"
    "pollFn (heap s r) (trace s) (triggerResult (heap s r)) = Some t"
  shows "deliver (TimerFires tm) s =
     (None, s\<lparr>timers := (timers s)(tm := None),
              heap := (heap s)(r := (heap s r)\<lparr>state := FAILED, error := Some (asError t)\<rparr>),
              trace := trace s @ [PollFn r (triggerResult (heap s r))] @
                (case onError (heap s r) of None \<Rightarrow> []
                 | Some f \<Rightarrow> [OnError r (asError t)])\<rparr>)"
proof -
  have "deliver (TimerFires tm) s =
      handleJobError jobId (asError t)
        (s\<lparr>timers := (timers s)(tm := None),
           trace := trace s @ [PollFn r (triggerResult (heap s r))]\<rparr>)"
    using assms by (simp add: pollTimer_def tryCatch_def invoke_def)
  also have "\<dots> = (None, s\<lparr>timers := (timers s)(tm := None),
              heap := (heap s)(r := (heap s r)\<lparr>state := FAILED, error := Some (asError t)\<rparr>),
              trace := trace s @ [PollFn r (triggerResult (heap s r))] @
                (case onError (heap s r) of None \<Rightarrow> []
                 | Some f \<Rightarrow> [OnError r (asError t)])\<rparr>)"
    using assms(2) by (subst handleJobError_registered [where r = r]) simp_all
  finally show ?thesis .
qed

lemma completeFn_throws:
  assumes "map_of (jobs s) jobId = Some r" "truthy (pollResult (heap s r))"
    "completeFn (heap s r) (trace s) (pollResult (heap s r)) = Some t"
  shows "executeJobCompletion jobId s =
     (None, s\<lparr>heap := (heap s)(r := (heap s r)\<lparr>state := FAILED, error := Some (asError t)\<rparr>),
              trace := trace s @ [CompleteFn r (pollResult (heap s r))] @
                (case onError (heap s r) of None \<Rightarrow> []
                 | Some f \<Rightarrow> [OnError r (asError t)])\<rparr>)"
proof -
  have "executeJobCompletion jobId s =
      handleJobError jobId (asError t)
        (s\<lparr>trace := trace s @ [CompleteFn r (pollResult (heap s r))]\<rparr>)"
    using assms by (simp add: executeJobCompletion_def tryCatch_def invoke_def)
  also have "\<dots> = (None, s\<lparr>heap := (heap s)(r := (heap s r)\<lparr>state := FAILED, error := Some (asError t)\<rparr>),
              trace := trace s @ [CompleteFn r (pollResult (heap s r))] @
                (case onError (heap s r) of None \<Rightarrow> []
                 | Some f \<Rightarrow> [OnError r (asError t)])\<rparr>)"
    using assms(1) by (subst handleJobError_registered [where r = r]) simp_all
  finally show ?thesis .
qed

section \<open>Aborting a job\<close>

text \<open>
  C6. \<^verbatim>\<open>abortJob(jobId)\<close> returns false and leaves the whole state as it was when the id is
  not registered. Otherwise it returns true, the timeout named by the job's \<^verbatim>\<open>timerId\<close>,
  if any, is no longer pending, the job's state is ABORTED whatever it was before, and no
  callback is invoked: the trace of invocations is unchanged.
\<close>

theorem abortJob_spec:
  "(map_of (jobs s) jobId = None \<longrightarrow> abortJob jobId s = (False, s)) \<and>
   (\<forall>r. map_of (jobs s) jobId = Some r \<longrightarrow>
      fst (abortJob jobId s) = True \<and>
      state (heap (snd (abortJob jobId s)) r) = ABORTED \<and>
      (\<forall>t. timerId (heap s r) = Some t \<longrightarrow> timers (snd (abortJob jobId s)) t = None) \<and>
      getJobState jobId (snd (abortJob jobId s)) = Some ABORTED \<and>
      (\<forall>r'. r' \<noteq> r \<longrightarrow> heap (snd (abortJob jobId s)) r' = heap s r') \<and>
      jobs (snd (abortJob jobId s)) = jobs s \<and>
      calls (snd (abortJob jobId s)) = calls s \<and>
      trace (snd (abortJob jobId s)) = trace s)"
  by (auto simp: abortJob_def getJobState_def updJob_def Let_def split: option.splits)

theorem abortJob_spec_witness:
  "map_of (jobs demoPolling) ''job_9'' = None \<and>
   abortJob ''job_9'' demoPolling = (False, demoPolling) \<and>
   map_of (jobs demoPolling) ''job_1'' = Some 0 \<and>
   timerId (heap demoPolling 0) = Some 2 \<and>
   timers demoPolling 2 = Some (''job_1'', 0) \<and>
   fst (abortJob ''job_1'' demoPolling) = True \<and>
   timers (snd (abortJob ''job_1'' demoPolling)) 2 = None \<and>
   getJobState ''job_1'' (snd (abortJob ''job_1'' demoPolling)) = Some ABORTED \<and>
   trace (snd (abortJob ''job_1'' demoPolling)) = trace demoPolling"
  using abortJob_spec [of demoPolling "''job_9''"] abortJob_spec [of demoPolling "''job_1''"]
  by (simp add: demo_defs step_defs op_defs)

section \<open>Poll responses\<close>

text \<open>
  C7. A poll response with \<^verbatim>\<open>done: true\<close> and an undefined result is handled exactly like a
  response with \<^verbatim>\<open>done: false\<close>: \<^verbatim>\<open>retryCount\<close> goes up by one; while the new count does
  not exceed the ceiling (and the job is registered and POLLING) the next timeout is set;
  when it exceeds the ceiling the job fails with the retry-ceiling error. Unless the
  response has \<^verbatim>\<open>done: true\<close> and a result other than \<^verbatim>\<open>undefined\<close>, the step neither
  invokes \<^verbatim>\<open>completeFn\<close> nor starts a call nor stores a poll result.
\<close>

theorem done_without_result_counts_as_not_done:
  "pollTimer_resumed jobId r (Inr (True, JUndefined)) s =
     pollTimer_resumed jobId r (Inr (False, res)) s \<and>
   retryCount (heap (snd (pollTimer_resumed jobId r (Inr (True, JUndefined)) s)) r) =
     retryCount (heap s r) + 1 \<and>
   (map_of (jobs s) jobId = Some r \<and> state (heap s r) = POLLING \<and>
    \<not> exceeds (retryCount (heap s r) + 1) (maxRetryAttempts s) \<longrightarrow>
      pollTimer_resumed jobId r (Inr (True, JUndefined)) s =
        (None, s\<lparr>heap := (heap s)(r := (heap s r)\<lparr>retryCount := retryCount (heap s r) + 1,
                                                  timerId := Some (fresh s)\<rparr>),
                 timers := (timers s)(fresh s \<mapsto> (jobId, r)), fresh := Suc (fresh s)\<rparr>)) \<and>
   (map_of (jobs s) jobId = Some r \<and> exceeds (retryCount (heap s r) + 1) (maxRetryAttempts s) \<longrightarrow>
      getJobState jobId (snd (pollTimer_resumed jobId r (Inr (True, JUndefined)) s)) = Some FAILED \<and>
      error (heap (snd (pollTimer_resumed jobId r (Inr (True, JUndefined)) s)) r) =
        Some (PollingError (''Exceeded maximum retry attempts (''
                              @ maxRetryAttemptsText s @ '')''))) \<and>
   (\<not> (done \<and> result \<noteq> JUndefined) \<longrightarrow>
      filter isCompleteFn (trace (snd (pollTimer_resumed jobId r (Inr (done, result)) s))) =
        filter isCompleteFn (trace s) \<and>
      calls (snd (pollTimer_resumed jobId r (Inr (done, result)) s)) = calls s \<and>
      pollResult (heap (snd (pollTimer_resumed jobId r (Inr (done, result)) s)) r) =
        pollResult (heap s r))"
proof -
  have nd: "\<not> (True \<and> JUndefined \<noteq> JUndefined)" by simp
  have same: "pollTimer_resumed jobId r (Inr (True, JUndefined)) s =
     pollTimer_resumed jobId r (Inr (False, res)) s"
    by (simp add: pollTimer_resumed_def)
  have cnt: "retryCount (heap (snd (pollTimer_resumed jobId r (Inr (True, JUndefined)) s)) r) =
     retryCount (heap s r) + 1"
    by (simp add: pollTimer_resumed_notDone [OF nd] Let_def handleJobError_def
        executeJobPolling_def step_defs split: option.splits)
  have sched: "map_of (jobs s) jobId = Some r \<and> state (heap s r) = POLLING \<and>
    \<not> exceeds (retryCount (heap s r) + 1) (maxRetryAttempts s) \<longrightarrow>
      pollTimer_resumed jobId r (Inr (True, JUndefined)) s =
        (None, s\<lparr>heap := (heap s)(r := (heap s r)\<lparr>retryCount := retryCount (heap s r) + 1,
                                                  timerId := Some (fresh s)\<rparr>),
                 timers := (timers s)(fresh s \<mapsto> (jobId, r)), fresh := Suc (fresh s)\<rparr>)"
    by (simp add: pollTimer_resumed_notDone [OF nd] Let_def executeJobPolling_def updJob_def)
  have ceil: "map_of (jobs s) jobId = Some r \<and> exceeds (retryCount (heap s r) + 1) (maxRetryAttempts s) \<longrightarrow>
      getJobState jobId (snd (pollTimer_resumed jobId r (Inr (True, JUndefined)) s)) = Some FAILED \<and>
      error (heap (snd (pollTimer_resumed jobId r (Inr (True, JUndefined)) s)) r) =
        Some (PollingError (''Exceeded maximum retry attempts (''
                              @ maxRetryAttemptsText s @ '')''))"
    by (simp add: pollTimer_resumed_notDone [OF nd] Let_def handleJobError_registered
        getJobState_def)
  have only: "\<not> (done \<and> result \<noteq> JUndefined) \<longrightarrow>
      filter isCompleteFn (trace (snd (pollTimer_resumed jobId r (Inr (done, result)) s))) =
        filter isCompleteFn (trace s) \<and>
      calls (snd (pollTimer_resumed jobId r (Inr (done, result)) s)) = calls s \<and>
      pollResult (heap (snd (pollTimer_resumed jobId r (Inr (done, result)) s)) r) =
        pollResult (heap s r)"
    by (auto simp add: pollTimer_resumed_notDone Let_def handleJobError_def
        executeJobPolling_def step_defs split: option.splits)
  from same cnt sched ceil only show ?thesis by blast
qed

theorem done_without_result_counts_as_not_done_witness:
  "map_of (jobs demoPollAwaited) ''job_1'' = Some 0 \<and>
   state (heap demoPollAwaited 0) = POLLING \<and>
   \<not> exceeds (retryCount (heap demoPollAwaited 0) + 1) (maxRetryAttempts demoPollAwaited) \<and>
   pollTimer_resumed ''job_1'' 0 (Inr (True, JUndefined)) demoPollAwaited =
     pollTimer_resumed ''job_1'' 0 (Inr (False, JUndefined)) demoPollAwaited \<and>
   retryCount (heap (snd (pollTimer_resumed ''job_1'' 0 (Inr (True, JUndefined)) demoPollAwaited)) 0) = 1 \<and>
   timers (snd (pollTimer_resumed ''job_1'' 0 (Inr (True, JUndefined)) demoPollAwaited)) 4 =
     Some (''job_1'', 0) \<and>
   filter isCompleteFn
     (trace (snd (pollTimer_resumed ''job_1'' 0 (Inr (True, JUndefined)) demoPollAwaited))) = []"
  using done_without_result_counts_as_not_done
          [of "''job_1''" 0 demoPollAwaited JUndefined True JUndefined]
  by (simp add: demo_defs step_defs op_defs)

section \<open>Callbacks that throw\<close>

text \<open>
  C9. When \<^verbatim>\<open>onComplete\<close> throws, the continuation of \<^verbatim>\<open>executeJobCompletion\<close> still returns
  normally and leaves the job COMPLETED with its final result; when \<^verbatim>\<open>onError\<close> throws,
  \<^verbatim>\<open>handleJobError\<close> still returns normally and leaves the job FAILED with its error. No
  event handled by the manager lets an exception escape.
\<close>

theorem callback_exceptions_contained:
  "(onComplete (heap s r) = Some f \<and> f v = Some t \<longrightarrow>
      executeJobCompletion_resumed jobId r (Inr v) s =
        (None, s\<lparr>heap := (heap s)(r := (heap s r)\<lparr>finalResult := v, state := COMPLETED\<rparr>),
                 trace := trace s @ [OnComplete r v]\<rparr>)) \<and>
   (map_of (jobs s) jobId = Some r \<and> onError (heap s r) = Some g \<and> g err = Some t \<longrightarrow>
      handleJobError jobId err s =
        (None, s\<lparr>heap := (heap s)(r := (heap s r)\<lparr>state := FAILED, error := Some err\<rparr>),
                 trace := trace s @ [OnError r err]\<rparr>)) \<and>
   fst (deliver e s) = None"
  by (simp add: deliver_returns handleJobError_registered executeJobCompletion_resumed_def
      step_defs)

theorem callback_exceptions_contained_witness:
  "onComplete (heap demoThrowing 0) = Some alwaysThrows \<and>
   alwaysThrows (JStr ''ok:42'') = Some (ThrownError (Error ''callback failed'')) \<and>
   map_of (jobs demoThrowing) ''job_1'' = Some 0 \<and>
   onError (heap demoThrowing 0) = Some alwaysThrows \<and>
   alwaysThrows (Error ''boom'') = Some (ThrownError (Error ''callback failed'')) \<and>
   fst (executeJobCompletion_resumed ''job_1'' 0 (Inr (JStr ''ok:42'')) demoThrowing) = None \<and>
   state (heap (snd (executeJobCompletion_resumed ''job_1'' 0 (Inr (JStr ''ok:42'')) demoThrowing)) 0)
     = COMPLETED \<and>
   fst (handleJobError ''job_1'' (Error ''boom'') demoThrowing) = None \<and>
   state (heap (snd (handleJobError ''job_1'' (Error ''boom'') demoThrowing)) 0) = FAILED \<and>
   fst (deliver (CompleteSettles 4 (Inr (JStr ''ok:42''))) demoThrowing) = None"
  using callback_exceptions_contained
          [of demoThrowing 0 alwaysThrows "JStr ''ok:42''" "ThrownError (Error ''callback failed'')"
              "''job_1''" alwaysThrows "Error ''boom''" "CompleteSettles 4 (Inr (JStr ''ok:42''))"]
  by (simp add: demo_defs step_defs op_defs)

section \<open>Falsy trigger results\<close>

text \<open>
  C10. When the trigger function returns its promise and that promise resolves to a falsy
  value (0, the empty string, false, null, NaN or undefined), the job is POLLING with its first timeout set; when that timeout fires the job
  becomes FAILED with the PollingError \<^verbatim>\<open>Trigger result is undefined\<close>, \<^verbatim>\<open>onError\<close> is
  called with it if provided, and \<^verbatim>\<open>pollFn\<close> is never invoked.
\<close>

theorem falsy_trigger_result_fails:
  assumes "\<not> truthy v" "tf (trace s) = None"
  shows "let r = fresh s;
        s1 = snd (startJob jobId tf pf cf onC onE s);
        s2 = snd (deliver (TriggerSettles (Suc r) (Inr v)) s1);
        s3 = snd (deliver (TimerFires (Suc (Suc r))) s2)
    in getJobState jobId s2 = Some POLLING \<and> triggerResult (heap s2 r) = v \<and>
       timers s2 (Suc (Suc r)) = Some (jobId, r) \<and>
       getJobState jobId s3 = Some FAILED \<and>
       error (heap s3 r) = Some (PollingError ''Trigger result is undefined'') \<and>
       trace s3 = trace s @ [TriggerFn r] @
         (case onE of None \<Rightarrow> []
          | Some f \<Rightarrow> [OnError r (PollingError ''Trigger result is undefined'')])"
proof -
  define r where "r = fresh s"
  define s1 where "s1 = snd (startJob jobId tf pf cf onC onE s)"
  define s2 where "s2 = snd (deliver (TriggerSettles (Suc r) (Inr v)) s1)"
  define s3 where "s3 = snd (deliver (TimerFires (Suc (Suc r))) s2)"
  note defs = s3_def s2_def s1_def r_def
  have s2: "s2 =
      s\<lparr>heap := (heap s)(r :=
               \<lparr>job_id = jobId, state = POLLING, triggerFn = tf, pollFn = pf,
                completeFn = cf, onComplete = onC, onError = onE,
                triggerResult = v, pollResult = JUndefined,
                finalResult = JUndefined, retryCount = 0, error = None,
                timerId = Some (Suc (Suc r))\<rparr>),
        jobs := AList.update jobId r (jobs s),
        timers := (timers s)(Suc (Suc r) \<mapsto> (jobId, r)),
        calls := (calls s)(Suc r := None),
        fresh := Suc (Suc (Suc r)),
        trace := trace s @ [TriggerFn r]\<rparr>"
    unfolding s2_def s1_def r_def
    by (simp add: startJob_async [where tf = tf and s = s, OF assms(2)]
        executeJobTrigger_resumed_def executeJobPolling_def step_defs update_conv')
  have reg: "map_of (jobs s2) jobId = Some r"
    by (simp add: s2 update_conv')
  have "s3 = snd (handleJobError jobId (PollingError ''Trigger result is undefined'')
                    (s2\<lparr>timers := (timers s2)(Suc (Suc r) := None)\<rparr>))"
    unfolding s3_def using assms(1) by (simp add: s2 pollTimer_def step_defs)
  also have "\<dots> = s2\<lparr>timers := (timers s2)(Suc (Suc r) := None),
       heap := (heap s2)(r := (heap s2 r)\<lparr>state := FAILED,
                 error := Some (PollingError ''Trigger result is undefined'')\<rparr>),
       trace := trace s2 @ (case onError (heap s2 r) of None \<Rightarrow> []
                  | Some f \<Rightarrow> [OnError r (PollingError ''Trigger result is undefined'')])\<rparr>"
    using reg by (subst handleJobError_registered [where r = r]) simp_all
  finally have s3: "s3 = s2\<lparr>timers := (timers s2)(Suc (Suc r) := None),
       heap := (heap s2)(r := (heap s2 r)\<lparr>state := FAILED,
                 error := Some (PollingError ''Trigger result is undefined'')\<rparr>),
       trace := trace s2 @ (case onError (heap s2 r) of None \<Rightarrow> []
                  | Some f \<Rightarrow> [OnError r (PollingError ''Trigger result is undefined'')])\<rparr>" .
  have a: "getJobState jobId s2 = Some POLLING" "triggerResult (heap s2 r) = v"
    "timers s2 (Suc (Suc r)) = Some (jobId, r)"
    by (simp_all add: s2 getJobState_def update_conv')
  have b: "getJobState jobId s3 = Some FAILED"
    "error (heap s3 r) = Some (PollingError ''Trigger result is undefined'')"
    unfolding s3 using reg by (simp_all add: getJobState_def)
  have oe: "onError (heap s2 r) = onE" "trace s2 = trace s @ [TriggerFn r]"
    by (simp_all add: s2)
  have c: "trace s3 = trace s @ [TriggerFn r] @
         (case onE of None \<Rightarrow> []
          | Some f \<Rightarrow> [OnError r (PollingError ''Trigger result is undefined'')])"
    unfolding s3 by (simp add: oe)
  show ?thesis
    unfolding Let_def by (intro conjI a [unfolded defs] b [unfolded defs] c [unfolded defs])
qed

theorem falsy_trigger_result_fails_witness:
  "\<not> truthy (JNum 0) \<and>
   asyncTrigger (trace demoManager) = None \<and>
   (let s1 = snd (startJob ''job_1'' asyncTrigger asyncStage asyncStage
                    None (Some returnsNormally) demoManager);
        s2 = snd (deliver (TriggerSettles 1 (Inr (JNum 0))) s1);
        s3 = snd (deliver (TimerFires 2) s2)
    in getJobState ''job_1'' s2 = Some POLLING \<and>
       getJobState ''job_1'' s3 = Some FAILED \<and>
       error (heap s3 0) = Some (PollingError ''Trigger result is undefined'') \<and>
       trace s3 = [TriggerFn 0, OnError 0 (PollingError ''Trigger result is undefined'')])"
  using falsy_trigger_result_fails
          [of "JNum 0" asyncTrigger demoManager "''job_1''" asyncStage asyncStage
              None "Some returnsNormally"]
  by (simp add: demo_defs Let_def step_defs op_defs getJobState_def)

section \<open>A poll result that is defined and falsy\<close>

text \<open>
  C1. The claim is that a POLLING job whose poll reports done with a defined result is
  completed. Here the first poll of a POLLING job resolves to \<^verbatim>\<open>{done: true, result: 0}\<close>:
  the result is stored, but \<^verbatim>\<open>executeJobCompletion\<close> tests \<^verbatim>\<open>!job.pollResult\<close>, so the job
  becomes FAILED with the PollingError \<^verbatim>\<open>Poll result is undefined\<close>, \<^verbatim>\<open>onError\<close> is called,
  and \<^verbatim>\<open>completeFn\<close> and \<^verbatim>\<open>onComplete\<close> are never invoked.
\<close>

theorem falsy_poll_result_fails:
  "getJobState ''job_1'' demoPollAwaited = Some POLLING \<and>
   calls demoPollAwaited 3 = Some (PollCall ''job_1'' 0) \<and>
   getJobState ''job_1'' demoFalsyPoll = Some FAILED \<and>
   pollResult (heap demoFalsyPoll 0) = JNum 0 \<and>
   finalResult (heap demoFalsyPoll 0) = JUndefined \<and>
   error (heap demoFalsyPoll 0) = Some (PollingError ''Poll result is undefined'') \<and>
   trace demoFalsyPoll =
     [TriggerFn 0, PollFn 0 (JStr ''trk-1''),
      OnError 0 (PollingError ''Poll result is undefined'')] \<and>
   calls demoFalsyPoll 4 = None"
  by (simp add: demo_defs step_defs op_defs getJobState_def)

section \<open>Abort while a poll is awaited\<close>

text \<open>
  C3. The claim is that after an abort of a POLLING job neither \<^verbatim>\<open>completeFn\<close> nor
  \<^verbatim>\<open>onComplete\<close> is invoked. Here the job is aborted while its first poll is awaited; the
  poll then resolves to \<^verbatim>\<open>{done: true, result: 42}\<close> and the completion to \<^verbatim>\<open>"ok:42"\<close>:
  after the abort \<^verbatim>\<open>completeFn\<close> is invoked with 42 and \<^verbatim>\<open>onComplete\<close> with \<^verbatim>\<open>"ok:42"\<close>, and
  the job ends COMPLETED.
\<close>

theorem abort_during_poll_still_completes:
  "getJobState ''job_1'' demoPollAwaited = Some POLLING \<and>
   getJobState ''job_1'' demoAbortedPollAwaited = Some ABORTED \<and>
   trace demoAbortedPollAwaited = [TriggerFn 0, PollFn 0 (JStr ''trk-1'')] \<and>
   trace demoCompletedAfterAbort =
     trace demoAbortedPollAwaited @ [CompleteFn 0 (JNum 42), OnComplete 0 (JStr ''ok:42'')] \<and>
   getJobState ''job_1'' demoCompletedAfterAbort = Some COMPLETED"
  by (simp add: demo_defs step_defs op_defs getJobState_def)

section \<open>A terminal state overwritten by an internal step\<close>

text \<open>
  C5. The claim is that no internal execution step changes the state of a job that is in a
  terminal state. Here the job is aborted while its trigger is awaited, so it is ABORTED;
  the trigger then rejects, and the continuation of \<^verbatim>\<open>executeJobTrigger\<close>, through
  \<^verbatim>\<open>handleJobError\<close>, sets the state to FAILED and calls \<^verbatim>\<open>onError\<close>.
\<close>

theorem aborted_job_becomes_failed:
  "getJobState ''job_1'' demoAbortedStarted = Some ABORTED \<and>
   demoFailedAfterAbort =
     snd (deliver (TriggerSettles 1 (Inl (ThrownError (Error ''boom'')))) demoAbortedStarted) \<and>
   getJobState ''job_1'' demoFailedAfterAbort = Some FAILED \<and>
   trace demoFailedAfterAbort = [TriggerFn 0, OnError 0 (Error ''boom'')]"
  by (simp add: demo_defs step_defs op_defs getJobState_def)

section \<open>The state of a job whose trigger is awaited\<close>

text \<open>
  C4, as stated, fails: right after \<^verbatim>\<open>startJob\<close> has returned, with the trigger call
  awaited and no trigger result stored, the job is observed POLLING, not PENDING.
\<close>

theorem trigger_pending_job_is_POLLING:
  "getJobState ''job_1'' demoStarted = Some POLLING \<and>
   getJobState ''job_1'' demoStarted \<noteq> Some PENDING \<and>
   calls demoStarted 1 = Some (TriggerCall ''job_1'' 0) \<and>
   triggerResult (heap demoStarted 0) = JUndefined \<and>
   trace demoStarted = [TriggerFn 0]"
  by (simp add: demo_defs step_defs op_defs getJobState_def)

text \<open>
  C4, amended. \<^verbatim>\<open>startJob\<close> stores the new job in state PENDING and then runs
  \<^verbatim>\<open>executeJobTrigger\<close>, which sets the state to POLLING before it calls \<^verbatim>\<open>triggerFn\<close>.
  When that call returns a promise, \<^verbatim>\<open>startJob\<close> returns with the job POLLING, its trigger
  awaited and no trigger result stored; when that call throws, \<^verbatim>\<open>startJob\<close> returns with
  the job FAILED, the error stored and \<^verbatim>\<open>onError\<close> called. A trigger that resolves, in any
  state, stores its result in the job object and changes the state of no job; it sets the
  first timeout when the job is registered and POLLING, and no timeout otherwise (a job
  aborted meanwhile stays ABORTED). In no state that a run from a new manager reaches is a
  registered job PENDING.
\<close>

theorem startJob_lifecycle:
  "(let r = fresh s;
        created = s\<lparr>heap := (heap s)(r :=
                      \<lparr>job_id = jobId, state = PENDING, triggerFn = tf, pollFn = pf,
                       completeFn = cf, onComplete = onC, onError = onE,
                       triggerResult = JUndefined, pollResult = JUndefined,
                       finalResult = JUndefined, retryCount = 0, error = None,
                       timerId = None\<rparr>),
                    fresh := Suc r, jobs := AList.update jobId r (jobs s)\<rparr>;
        started = snd (startJob jobId tf pf cf onC onE s)
    in getJobState jobId created = Some PENDING \<and>
       startJob jobId tf pf cf onC onE s = (Inr jobId, snd (executeJobTrigger jobId created)) \<and>
       (tf (trace s) = None \<longrightarrow>
          getJobState jobId started = Some POLLING \<and>
          triggerResult (heap started r) = JUndefined \<and>
          calls started (Suc r) = Some (TriggerCall jobId r) \<and>
          trace started = trace s @ [TriggerFn r]) \<and>
       (\<forall>t. tf (trace s) = Some t \<longrightarrow>
          getJobState jobId started = Some FAILED \<and>
          error (heap started r) = Some (asError t) \<and>
          calls started = calls s \<and>
          trace started = trace s @ [TriggerFn r] @
            (case onE of None \<Rightarrow> [] | Some f \<Rightarrow> [OnError r (asError t)]))) \<and>
   (calls s c = Some (TriggerCall jobId' r') \<longrightarrow>
      (let settled = snd (deliver (TriggerSettles c (Inr v)) s)
       in triggerResult (heap settled r') = v \<and>
          (\<forall>x. state (heap settled x) = state (heap s x)) \<and>
          jobs settled = jobs s \<and>
          (\<forall>q. map_of (jobs s) jobId' = Some q \<and> state (heap s q) = POLLING \<longrightarrow>
               timers settled = (timers s)(fresh s \<mapsto> (jobId', q)) \<and>
               timerId (heap settled q) = Some (fresh s)) \<and>
          (\<not> (\<exists>q. map_of (jobs s) jobId' = Some q \<and> state (heap s q) = POLLING) \<longrightarrow>
               timers settled = timers s))) \<and>
   getJobState jobId'' (run acts (newManager opts)) \<noteq> Some PENDING"
proof -
  have created: "getJobState jobId
      (s\<lparr>heap := (heap s)(fresh s :=
                      \<lparr>job_id = jobId, state = PENDING, triggerFn = tf, pollFn = pf,
                       completeFn = cf, onComplete = onC, onError = onE,
                       triggerResult = JUndefined, pollResult = JUndefined,
                       finalResult = JUndefined, retryCount = 0, error = None,
                       timerId = None\<rparr>),
          fresh := Suc (fresh s), jobs := AList.update jobId (fresh s) (jobs s)\<rparr>) = Some PENDING"
    by (simp add: getJobState_def update_conv')
  have async: "tf (trace s) = None \<longrightarrow>
          getJobState jobId (snd (startJob jobId tf pf cf onC onE s)) = Some POLLING \<and>
          triggerResult (heap (snd (startJob jobId tf pf cf onC onE s)) (fresh s)) = JUndefined \<and>
          calls (snd (startJob jobId tf pf cf onC onE s)) (Suc (fresh s)) =
            Some (TriggerCall jobId (fresh s)) \<and>
          trace (snd (startJob jobId tf pf cf onC onE s)) = trace s @ [TriggerFn (fresh s)]"
  proof
    assume a: "tf (trace s) = None"
    show "getJobState jobId (snd (startJob jobId tf pf cf onC onE s)) = Some POLLING \<and>
          triggerResult (heap (snd (startJob jobId tf pf cf onC onE s)) (fresh s)) = JUndefined \<and>
          calls (snd (startJob jobId tf pf cf onC onE s)) (Suc (fresh s)) =
            Some (TriggerCall jobId (fresh s)) \<and>
          trace (snd (startJob jobId tf pf cf onC onE s)) = trace s @ [TriggerFn (fresh s)]"
      by (simp add: startJob_async [where tf = tf and s = s, OF a] getJobState_def update_conv')
  qed
  have throwing: "\<forall>t. tf (trace s) = Some t \<longrightarrow>
          getJobState jobId (snd (startJob jobId tf pf cf onC onE s)) = Some FAILED \<and>
          error (heap (snd (startJob jobId tf pf cf onC onE s)) (fresh s)) = Some (asError t) \<and>
          calls (snd (startJob jobId tf pf cf onC onE s)) = calls s \<and>
          trace (snd (startJob jobId tf pf cf onC onE s)) = trace s @ [TriggerFn (fresh s)] @
            (case onE of None \<Rightarrow> [] | Some f \<Rightarrow> [OnError (fresh s) (asError t)])"
  proof (intro allI impI)
    fix t
    assume a: "tf (trace s) = Some t"
    show "getJobState jobId (snd (startJob jobId tf pf cf onC onE s)) = Some FAILED \<and>
          error (heap (snd (startJob jobId tf pf cf onC onE s)) (fresh s)) = Some (asError t) \<and>
          calls (snd (startJob jobId tf pf cf onC onE s)) = calls s \<and>
          trace (snd (startJob jobId tf pf cf onC onE s)) = trace s @ [TriggerFn (fresh s)] @
            (case onE of None \<Rightarrow> [] | Some f \<Rightarrow> [OnError (fresh s) (asError t)])"
      by (simp add: startJob_throws [where tf = tf and s = s, OF a] getJobState_def update_conv')
  qed
  have settled: "calls s c = Some (TriggerCall jobId' r') \<longrightarrow>
      (let settled = snd (deliver (TriggerSettles c (Inr v)) s)
       in triggerResult (heap settled r') = v \<and>
          (\<forall>x. state (heap settled x) = state (heap s x)) \<and>
          jobs settled = jobs s \<and>
          (\<forall>q. map_of (jobs s) jobId' = Some q \<and> state (heap s q) = POLLING \<longrightarrow>
               timers settled = (timers s)(fresh s \<mapsto> (jobId', q)) \<and>
               timerId (heap settled q) = Some (fresh s)) \<and>
          (\<not> (\<exists>q. map_of (jobs s) jobId' = Some q \<and> state (heap s q) = POLLING) \<longrightarrow>
               timers settled = timers s))"
    unfolding Let_def
    using trigger_resolved_facts [where s = s and c = c and jobId = jobId' and r = r' and v = v]
    by blast
  show ?thesis
    unfolding Let_def
    using created startJob_created [of jobId tf pf cf onC onE s] async throwing
      settled [unfolded Let_def] never_PENDING [of jobId'' acts opts]
    by blast
qed

theorem startJob_lifecycle_witness:
  "asyncTrigger (trace demoManager) = None \<and>
   getJobState ''job_1'' demoStarted = Some POLLING \<and>
   calls demoStarted 1 = Some (TriggerCall ''job_1'' 0) \<and>
   triggerResult (heap demoPolling 0) = JStr ''trk-1'' \<and>
   getJobState ''job_1'' demoPolling = Some POLLING \<and>
   timers demoPolling 2 = Some (''job_1'', 0) \<and>
   throwingTrigger (trace demoManager) = Some (ThrownError (Error ''no connection'')) \<and>
   getJobState ''job_1'' demoTriggerThrew = Some FAILED \<and>
   error (heap demoTriggerThrew 0) = Some (Error ''no connection'') \<and>
   calls demoAbortedStarted 1 = Some (TriggerCall ''job_1'' 0) \<and>
   getJobState ''job_1'' demoAbortedStarted = Some ABORTED \<and>
   timers (snd (deliver (TriggerSettles 1 (Inr (JStr ''trk-1''))) demoAbortedStarted)) =
     timers demoAbortedStarted \<and>
   getJobState ''job_1'' (snd (deliver (TriggerSettles 1 (Inr (JStr ''trk-1''))) demoAbortedStarted)) =
     Some ABORTED \<and>
   getJobState ''job_1''
     (run [StartJob ''job_1'' asyncTrigger asyncStage asyncStage None None, AbortJob ''job_1'']
        (newManager None)) \<noteq> Some PENDING"
  using startJob_lifecycle
          [where s = demoManager and jobId = "''job_1''" and tf = asyncTrigger
             and pf = asyncStage and cf = asyncStage and onC = "Some returnsNormally"
             and onE = "Some returnsNormally" and c = 1 and jobId' = "''job_1''" and r' = 0
             and v = "JStr ''trk-1''" and jobId'' = "''job_1''" and opts = None
             and acts = "[StartJob ''job_1'' asyncTrigger asyncStage asyncStage None None,
                          AbortJob ''job_1'']"]
        startJob_lifecycle
          [where s = demoManager and jobId = "''job_1''" and tf = throwingTrigger
             and pf = asyncStage and cf = asyncStage and onC = "Some returnsNormally"
             and onE = "Some returnsNormally" and c = 1 and jobId' = "''job_1''" and r' = 0
             and v = "JStr ''trk-1''" and jobId'' = "''job_1''" and opts = None and acts = "[]"]
        startJob_lifecycle
          [where s = demoStarted and jobId = "''job_2''" and tf = asyncTrigger
             and pf = asyncStage and cf = asyncStage and onC = None
             and onE = None and c = 1 and jobId' = "''job_1''" and r' = 0
             and v = "JStr ''trk-1''" and jobId'' = "''job_1''" and opts = None and acts = "[]"]
        startJob_lifecycle
          [where s = demoAbortedStarted and jobId = "''job_2''" and tf = asyncTrigger
             and pf = asyncStage and cf = asyncStage and onC = None
             and onE = None and c = 1 and jobId' = "''job_1''" and r' = 0
             and v = "JStr ''trk-1''" and jobId'' = "''job_1''" and opts = None and acts = "[]"]
  by (simp add: demo_defs step_defs op_defs getJobState_def)

section \<open>Failures of stage functions\<close>

text \<open>
  C8, as stated, fails: a job is cleaned up while its trigger is awaited; the trigger then
  rejects. The job object stays ABORTED, no error is stored, the job is not registered and
  \<^verbatim>\<open>onError\<close>, although provided, is never called.
\<close>

theorem dropped_failure_after_cleanup:
  "calls demoCleanedUp 1 = Some (TriggerCall ''job_1'' 0) \<and>
   onError (heap demoCleanedUp 0) = Some returnsNormally \<and>
   state (heap demoCleanedUp 0) = ABORTED \<and>
   demoDropped =
     snd (deliver (TriggerSettles 1 (Inl (ThrownError (Error ''boom'')))) demoCleanedUp) \<and>
   state (heap demoDropped 0) = ABORTED \<and>
   error (heap demoDropped 0) = None \<and>
   getJobState ''job_1'' demoDropped = None \<and>
   trace demoDropped = [TriggerFn 0]"
  by (simp add: demo_defs step_defs op_defs getJobState_def)

text \<open>
  C8, amended. When the promise of a stage function (trigger, poll or complete) rejects
  while the job is registered under its id, the job becomes FAILED, the error (the thrown
  value itself when it is an Error, otherwise a new Error of its string) is stored in the
  job, \<^verbatim>\<open>onError\<close> is the only callback invoked, and nothing is thrown. When the job is no
  longer registered, the failure is dropped: nothing changes but the settled call. The same
  holds when the call of a stage function throws instead of returning a promise: the trigger
  inside \<^verbatim>\<open>startJob\<close>, the poll function when a timeout fires, the complete function inside
  \<^verbatim>\<open>executeJobCompletion\<close>. \<^verbatim>\<open>startJob\<close> always returns the job id and throws nothing.
\<close>

theorem stage_failure_spec:
  "(map_of (jobs s) jobId = Some r \<longrightarrow>
      (let failed = s\<lparr>calls := (calls s)(c := None),
                      heap := (heap s)(r := (heap s r)\<lparr>state := FAILED,
                                                         error := Some (asError t)\<rparr>),
                      trace := trace s @ (case onError (heap s r) of
                                            None \<Rightarrow> []
                                          | Some f \<Rightarrow> [OnError r (asError t)])\<rparr>
       in (calls s c = Some (TriggerCall jobId r) \<longrightarrow>
             deliver (TriggerSettles c (Inl t)) s = (None, failed)) \<and>
          (calls s c = Some (PollCall jobId r) \<longrightarrow>
             deliver (PollSettles c (Inl t)) s = (None, failed)) \<and>
          (calls s c = Some (CompleteCall jobId r) \<longrightarrow>
             deliver (CompleteSettles c (Inl t)) s = (None, failed)))) \<and>
   (map_of (jobs s) jobId = None \<longrightarrow>
      (let dropped = s\<lparr>calls := (calls s)(c := None)\<rparr>
       in (calls s c = Some (TriggerCall jobId r) \<longrightarrow>
             deliver (TriggerSettles c (Inl t)) s = (None, dropped)) \<and>
          (calls s c = Some (PollCall jobId r) \<longrightarrow>
             deliver (PollSettles c (Inl t)) s = (None, dropped)) \<and>
          (calls s c = Some (CompleteCall jobId r) \<longrightarrow>
             deliver (CompleteSettles c (Inl t)) s = (None, dropped)))) \<and>
   (tf (trace s) = Some t \<longrightarrow>
      startJob newId tf pf cf onC onE s =
        (Inr newId,
         s\<lparr>heap := (heap s)(fresh s :=
                  \<lparr>job_id = newId, state = FAILED, triggerFn = tf, pollFn = pf,
                   completeFn = cf, onComplete = onC, onError = onE,
                   triggerResult = JUndefined, pollResult = JUndefined,
                   finalResult = JUndefined, retryCount = 0, error = Some (asError t),
                   timerId = None\<rparr>),
           jobs := AList.update newId (fresh s) (jobs s),
           fresh := Suc (fresh s),
           trace := trace s @ [TriggerFn (fresh s)] @
                    (case onE of None \<Rightarrow> [] | Some f \<Rightarrow> [OnError (fresh s) (asError t)])\<rparr>)) \<and>
   (timers s tm = Some (jobId, r) \<and> map_of (jobs s) jobId = Some r \<and>
    truthy (triggerResult (heap s r)) \<and>
    pollFn (heap s r) (trace s) (triggerResult (heap s r)) = Some t \<longrightarrow>
      deliver (TimerFires tm) s =
        (None, s\<lparr>timers := (timers s)(tm := None),
                 heap := (heap s)(r := (heap s r)\<lparr>state := FAILED, error := Some (asError t)\<rparr>),
                 trace := trace s @ [PollFn r (triggerResult (heap s r))] @
                   (case onError (heap s r) of None \<Rightarrow> []
                    | Some f \<Rightarrow> [OnError r (asError t)])\<rparr>)) \<and>
   (map_of (jobs s) jobId = Some r \<and> truthy (pollResult (heap s r)) \<and>
    completeFn (heap s r) (trace s) (pollResult (heap s r)) = Some t \<longrightarrow>
      executeJobCompletion jobId s =
        (None, s\<lparr>heap := (heap s)(r := (heap s r)\<lparr>state := FAILED, error := Some (asError t)\<rparr>),
                 trace := trace s @ [CompleteFn r (pollResult (heap s r))] @
                   (case onError (heap s r) of None \<Rightarrow> []
                    | Some f \<Rightarrow> [OnError r (asError t)])\<rparr>)) \<and>
   fst (startJob newId tf pf cf onC onE s) = Inr newId"
proof -
  have resumed:
    "executeJobTrigger_resumed jobId r (Inl t) = handleJobError jobId (asError t)"
    "pollTimer_resumed jobId r (Inl t) = handleJobError jobId (asError t)"
    "executeJobCompletion_resumed jobId r (Inl t) = handleJobError jobId (asError t)"
    by (rule ext, simp add: executeJobTrigger_resumed_def pollTimer_resumed_def
        executeJobCompletion_resumed_def tryCatch_def throws_def)+
  have reg: "map_of (jobs s) jobId = Some r \<longrightarrow>
      (let failed = s\<lparr>calls := (calls s)(c := None),
                      heap := (heap s)(r := (heap s r)\<lparr>state := FAILED,
                                                         error := Some (asError t)\<rparr>),
                      trace := trace s @ (case onError (heap s r) of
                                            None \<Rightarrow> []
                                          | Some f \<Rightarrow> [OnError r (asError t)])\<rparr>
       in (calls s c = Some (TriggerCall jobId r) \<longrightarrow>
             deliver (TriggerSettles c (Inl t)) s = (None, failed)) \<and>
          (calls s c = Some (PollCall jobId r) \<longrightarrow>
             deliver (PollSettles c (Inl t)) s = (None, failed)) \<and>
          (calls s c = Some (CompleteCall jobId r) \<longrightarrow>
             deliver (CompleteSettles c (Inl t)) s = (None, failed)))"
    by (simp add: Let_def resumed handleJobError_registered)
  have unreg: "map_of (jobs s) jobId = None \<longrightarrow>
      (let dropped = s\<lparr>calls := (calls s)(c := None)\<rparr>
       in (calls s c = Some (TriggerCall jobId r) \<longrightarrow>
             deliver (TriggerSettles c (Inl t)) s = (None, dropped)) \<and>
          (calls s c = Some (PollCall jobId r) \<longrightarrow>
             deliver (PollSettles c (Inl t)) s = (None, dropped)) \<and>
          (calls s c = Some (CompleteCall jobId r) \<longrightarrow>
             deliver (CompleteSettles c (Inl t)) s = (None, dropped)))"
    by (simp add: Let_def resumed handleJobError_unregistered)
  have start: "fst (startJob newId tf pf cf onC onE s) = Inr newId"
    by (simp add: startJob_def notAwaited_def Let_def)
  from reg unreg start
    startJob_throws [where tf = tf and s = s and t = t and jobId = newId and pf = pf
                       and cf = cf and onC = onC and onE = onE]
    pollFn_throws [where s = s and tm = tm and jobId = jobId and r = r and t = t]
    completeFn_throws [where s = s and jobId = jobId and r = r and t = t]
  show ?thesis by blast
qed

theorem stage_failure_spec_witness:
  "map_of (jobs demoPollAwaited) ''job_1'' = Some 0 \<and>
   calls demoPollAwaited 3 = Some (PollCall ''job_1'' 0) \<and>
   fst (deliver (PollSettles 3 (Inl (ThrownOther ''boom''))) demoPollAwaited) = None \<and>
   getJobState ''job_1'' (snd (deliver (PollSettles 3 (Inl (ThrownOther ''boom''))) demoPollAwaited))
     = Some FAILED \<and>
   error (heap (snd (deliver (PollSettles 3 (Inl (ThrownOther ''boom''))) demoPollAwaited)) 0)
     = Some (Error ''boom'') \<and>
   trace (snd (deliver (PollSettles 3 (Inl (ThrownOther ''boom''))) demoPollAwaited))
     = [TriggerFn 0, PollFn 0 (JStr ''trk-1''), OnError 0 (Error ''boom'')] \<and>
   map_of (jobs demoCleanedUp) ''job_1'' = None \<and>
   calls demoCleanedUp 1 = Some (TriggerCall ''job_1'' 0) \<and>
   trace (snd (deliver (TriggerSettles 1 (Inl (ThrownOther ''boom''))) demoCleanedUp)) = [TriggerFn 0] \<and>
   throwingTrigger (trace demoManager) = Some (ThrownError (Error ''no connection'')) \<and>
   getJobState ''job_1'' demoTriggerThrew = Some FAILED \<and>
   trace demoTriggerThrew = [TriggerFn 0, OnError 0 (Error ''no connection'')] \<and>
   fst (startJob ''job_2'' asyncTrigger asyncStage asyncStage None None demoPollAwaited) = Inr ''job_2''"
  using stage_failure_spec [where s = demoPollAwaited and jobId = "''job_1''" and r = 0 and c = 3
                              and t = "ThrownOther ''boom''" and newId = "''job_2''"
                              and tf = asyncTrigger and pf = asyncStage and cf = asyncStage
                              and onC = None and onE = None and tm = 2]
        stage_failure_spec [where s = demoCleanedUp and jobId = "''job_1''" and r = 0 and c = 1
                              and t = "ThrownOther ''boom''" and newId = "''job_2''"
                              and tf = asyncTrigger and pf = asyncStage and cf = asyncStage
                              and onC = None and onE = None and tm = 2]
        stage_failure_spec [where s = demoManager and jobId = "''job_1''" and r = 0 and c = 1
                              and t = "ThrownError (Error ''no connection'')" and newId = "''job_1''"
                              and tf = throwingTrigger and pf = asyncStage and cf = asyncStage
                              and onC = "Some returnsNormally" and onE = "Some returnsNormally"
                              and tm = 2]
  by (simp add: demo_defs step_defs op_defs getJobState_def)

section \<open>The retry ceiling\<close>

text \<open>
  One round of timeout and \<^verbatim>\<open>done: false\<close> response, below the ceiling and at the ceiling;
  then any number of rounds, by induction on the list of responses.
\<close>

lemma notDoneRound_below:
  assumes "map_of (jobs s) jobId = Some r" "state (heap s r) = POLLING"
    "truthy (triggerResult (heap s r))" "timers s t = Some (jobId, r)"
    "pollFn (heap s r) (trace s) (triggerResult (heap s r)) = None"
    "\<not> exceeds (retryCount (heap s r) + 1) (maxRetryAttempts s)"
  shows "run [Runtime (TimerFires t), Runtime (PollSettles (fresh s) (Inr (False, res)))] s =
     s\<lparr>heap := (heap s)(r := (heap s r)\<lparr>retryCount := retryCount (heap s r) + 1,
                                          timerId := Some (Suc (fresh s))\<rparr>),
       timers := ((timers s)(t := None))(Suc (fresh s) \<mapsto> (jobId, r)),
       calls := (calls s)(fresh s := None),
       fresh := Suc (Suc (fresh s)),
       trace := trace s @ [PollFn r (triggerResult (heap s r))]\<rparr>"
  using assms
  by (simp add: run_def pollTimer_def pollTimer_resumed_def executeJobPolling_def Let_def
      step_defs)

lemma notDoneRound_ceiling:
  assumes "map_of (jobs s) jobId = Some r"
    "truthy (triggerResult (heap s r))" "timers s t = Some (jobId, r)"
    "pollFn (heap s r) (trace s) (triggerResult (heap s r)) = None"
    "exceeds (retryCount (heap s r) + 1) (maxRetryAttempts s)"
  shows "run [Runtime (TimerFires t), Runtime (PollSettles (fresh s) (Inr (False, res)))] s =
     s\<lparr>heap := (heap s)(r := (heap s r)\<lparr>retryCount := retryCount (heap s r) + 1,
            state := FAILED,
            error := Some (PollingError (''Exceeded maximum retry attempts (''
                             @ maxRetryAttemptsText s @ '')''))\<rparr>),
       timers := (timers s)(t := None),
       calls := (calls s)(fresh s := None),
       fresh := Suc (fresh s),
       trace := trace s @ [PollFn r (triggerResult (heap s r))] @
         (case onError (heap s r) of None \<Rightarrow> []
          | Some f \<Rightarrow> [OnError r (PollingError (''Exceeded maximum retry attempts (''
                             @ maxRetryAttemptsText s @ '')''))])\<rparr>"
  using assms
  by (simp add: run_def pollTimer_def pollTimer_resumed_def handleJobError_def Let_def
      step_defs split: option.splits)

lemma map_le_remove: "map_le (m(k := None)) m"
  by (simp add: map_le_def)

lemma notDoneRounds_below:
  assumes "map_of (jobs s) jobId = Some r" "state (heap s r) = POLLING"
    "truthy (triggerResult (heap s r))" "timerId (heap s r) = Some t"
    "timers s t = Some (jobId, r)"
    "\<forall>h a. pollFn (heap s r) h a = None"
    "maxRetryAttempts s = Finite (of_int N)"
    "retryCount (heap s r) + int (length results) \<le> N"
  shows "map_of (jobs (notDoneRounds r results s)) jobId = Some r \<and>
     state (heap (notDoneRounds r results s) r) = POLLING \<and>
     retryCount (heap (notDoneRounds r results s) r) = retryCount (heap s r) + int (length results) \<and>
     trace (notDoneRounds r results s) =
       trace s @ replicate (length results) (PollFn r (triggerResult (heap s r))) \<and>
     (\<exists>t'. timerId (heap (notDoneRounds r results s) r) = Some t' \<and>
           timers (notDoneRounds r results s) t' = Some (jobId, r))"
  using assms
proof (induction results arbitrary: s t)
  case Nil
  then show ?case by simp
next
  case (Cons res rest)
  let ?s1 = "run [Runtime (TimerFires t), Runtime (PollSettles (fresh s) (Inr (False, res)))] s"
  have below: "\<not> exceeds (retryCount (heap s r) + 1) (maxRetryAttempts s)"
    using Cons.prems(7,8) by simp
  have nothrow: "pollFn (heap s r) (trace s) (triggerResult (heap s r)) = None"
    using Cons.prems(6) by simp
  have s1: "?s1 =
     s\<lparr>heap := (heap s)(r := (heap s r)\<lparr>retryCount := retryCount (heap s r) + 1,
                                          timerId := Some (Suc (fresh s))\<rparr>),
       timers := ((timers s)(t := None))(Suc (fresh s) \<mapsto> (jobId, r)),
       calls := (calls s)(fresh s := None),
       fresh := Suc (Suc (fresh s)),
       trace := trace s @ [PollFn r (triggerResult (heap s r))]\<rparr>"
    by (rule notDoneRound_below [OF Cons.prems(1,2,3,5) nothrow below])
  have unfold: "notDoneRounds r (res # rest) s = notDoneRounds r rest ?s1"
    using Cons.prems(4) by simp
  have ih: "map_of (jobs (notDoneRounds r rest ?s1)) jobId = Some r \<and>
     state (heap (notDoneRounds r rest ?s1) r) = POLLING \<and>
     retryCount (heap (notDoneRounds r rest ?s1) r) = retryCount (heap ?s1 r) + int (length rest) \<and>
     trace (notDoneRounds r rest ?s1) =
       trace ?s1 @ replicate (length rest) (PollFn r (triggerResult (heap ?s1 r))) \<and>
     (\<exists>t'. timerId (heap (notDoneRounds r rest ?s1) r) = Some t' \<and>
           timers (notDoneRounds r rest ?s1) t' = Some (jobId, r))"
  proof (rule Cons.IH [where t = "Suc (fresh s)"])
    show "map_of (jobs ?s1) jobId = Some r" using Cons.prems(1) by (simp add: s1)
    show "state (heap ?s1 r) = POLLING" using Cons.prems(2) by (simp add: s1)
    show "truthy (triggerResult (heap ?s1 r))" using Cons.prems(3) by (simp add: s1)
    show "timerId (heap ?s1 r) = Some (Suc (fresh s))" by (simp add: s1)
    show "timers ?s1 (Suc (fresh s)) = Some (jobId, r)" by (simp add: s1)
    show "\<forall>h a. pollFn (heap ?s1 r) h a = None" using Cons.prems(6) by (simp add: s1)
    show "maxRetryAttempts ?s1 = Finite (of_int N)" using Cons.prems(7) by (simp add: s1)
    show "retryCount (heap ?s1 r) + int (length rest) \<le> N"
      using Cons.prems(8) by (simp add: s1)
  qed
  have tr: "trace ?s1 @ replicate (length rest) (PollFn r (triggerResult (heap ?s1 r))) =
      trace s @ replicate (length (res # rest)) (PollFn r (triggerResult (heap s r)))"
    by (simp add: s1)
  have rc: "retryCount (heap ?s1 r) + int (length rest) =
      retryCount (heap s r) + int (length (res # rest))"
    by (simp add: s1)
  show ?case
    unfolding unfold using ih tr rc by simp
qed

lemma notDoneRounds_ceiling:
  assumes "map_of (jobs s) jobId = Some r" "state (heap s r) = POLLING"
    "truthy (triggerResult (heap s r))" "timerId (heap s r) = Some t"
    "timers s t = Some (jobId, r)"
    "\<forall>h a. pollFn (heap s r) h a = None"
    "maxRetryAttempts s = Finite (of_int N)"
    "retryCount (heap s r) + int (length results) = N + 1"
    "results \<noteq> []"
  shows "getJobState jobId (notDoneRounds r results s) = Some FAILED \<and>
     error (heap (notDoneRounds r results s) r) =
       Some (PollingError (''Exceeded maximum retry attempts (''
                             @ maxRetryAttemptsText s @ '')'')) \<and>
     trace (notDoneRounds r results s) =
       trace s @ replicate (length results) (PollFn r (triggerResult (heap s r))) @
         (case onError (heap s r) of None \<Rightarrow> []
          | Some f \<Rightarrow> [OnError r (PollingError (''Exceeded maximum retry attempts (''
                             @ maxRetryAttemptsText s @ '')''))]) \<and>
     map_le (timers (notDoneRounds r results s)) ((timers s)(t := None)) \<and>
     map_le (calls (notDoneRounds r results s)) (calls s)"
  using assms
proof (induction results arbitrary: s t)
  case Nil
  then show ?case by simp
next
  case (Cons res rest)
  let ?s1 = "run [Runtime (TimerFires t), Runtime (PollSettles (fresh s) (Inr (False, res)))] s"
  have unfold: "notDoneRounds r (res # rest) s = notDoneRounds r rest ?s1"
    using Cons.prems(4) by simp
  have nothrow: "pollFn (heap s r) (trace s) (triggerResult (heap s r)) = None"
    using Cons.prems(6) by simp
  show ?case
  proof (cases rest)
    case Nil
    have above: "exceeds (retryCount (heap s r) + 1) (maxRetryAttempts s)"
      using Cons.prems(7,8) Nil by simp
    have s1: "?s1 =
     s\<lparr>heap := (heap s)(r := (heap s r)\<lparr>retryCount := retryCount (heap s r) + 1,
            state := FAILED,
            error := Some (PollingError (''Exceeded maximum retry attempts (''
                             @ maxRetryAttemptsText s @ '')''))\<rparr>),
       timers := (timers s)(t := None),
       calls := (calls s)(fresh s := None),
       fresh := Suc (fresh s),
       trace := trace s @ [PollFn r (triggerResult (heap s r))] @
         (case onError (heap s r) of None \<Rightarrow> []
          | Some f \<Rightarrow> [OnError r (PollingError (''Exceeded maximum retry attempts (''
                             @ maxRetryAttemptsText s @ '')''))])\<rparr>"
      by (rule notDoneRound_ceiling [OF Cons.prems(1,3,5) nothrow above])
    have eq: "notDoneRounds r (res # rest) s = ?s1"
      using Cons.prems(4) Nil by simp
    have len: "length (res # rest) = 1" using Nil by simp
    show ?thesis
      unfolding eq len s1 using Cons.prems(1) by (auto simp add: getJobState_def map_le_def)
  next
    case (Cons res' rest')
    have below: "\<not> exceeds (retryCount (heap s r) + 1) (maxRetryAttempts s)"
      using Cons.prems(7,8) Cons by simp
    have s1: "?s1 =
     s\<lparr>heap := (heap s)(r := (heap s r)\<lparr>retryCount := retryCount (heap s r) + 1,
                                          timerId := Some (Suc (fresh s))\<rparr>),
       timers := ((timers s)(t := None))(Suc (fresh s) \<mapsto> (jobId, r)),
       calls := (calls s)(fresh s := None),
       fresh := Suc (Suc (fresh s)),
       trace := trace s @ [PollFn r (triggerResult (heap s r))]\<rparr>"
      by (rule notDoneRound_below [OF Cons.prems(1,2,3,5) nothrow below])
    have ih: "getJobState jobId (notDoneRounds r rest ?s1) = Some FAILED \<and>
     error (heap (notDoneRounds r rest ?s1) r) =
       Some (PollingError (''Exceeded maximum retry attempts (''
                             @ maxRetryAttemptsText ?s1 @ '')'')) \<and>
     trace (notDoneRounds r rest ?s1) =
       trace ?s1 @ replicate (length rest) (PollFn r (triggerResult (heap ?s1 r))) @
         (case onError (heap ?s1 r) of None \<Rightarrow> []
          | Some f \<Rightarrow> [OnError r (PollingError (''Exceeded maximum retry attempts (''
                             @ maxRetryAttemptsText ?s1 @ '')''))]) \<and>
     map_le (timers (notDoneRounds r rest ?s1)) ((timers ?s1)(Suc (fresh s) := None)) \<and>
     map_le (calls (notDoneRounds r rest ?s1)) (calls ?s1)"
    proof (rule Cons.IH [where t = "Suc (fresh s)"])
      show "map_of (jobs ?s1) jobId = Some r" using Cons.prems(1) by (simp add: s1)
      show "state (heap ?s1 r) = POLLING" using Cons.prems(2) by (simp add: s1)
      show "truthy (triggerResult (heap ?s1 r))" using Cons.prems(3) by (simp add: s1)
      show "timerId (heap ?s1 r) = Some (Suc (fresh s))" by (simp add: s1)
      show "timers ?s1 (Suc (fresh s)) = Some (jobId, r)" by (simp add: s1)
      show "\<forall>h a. pollFn (heap ?s1 r) h a = None" using Cons.prems(6) by (simp add: s1)
      show "maxRetryAttempts ?s1 = Finite (of_int N)" using Cons.prems(7) by (simp add: s1)
      show "retryCount (heap ?s1 r) + int (length rest) = N + 1"
        using Cons.prems(8) by (simp add: s1)
      show "rest \<noteq> []" using Cons by simp
    qed
    have mx: "maxRetryAttemptsText ?s1 = maxRetryAttemptsText s" by (simp add: s1)
    have oe: "onError (heap ?s1 r) = onError (heap s r)" by (simp add: s1)
    have tg: "triggerResult (heap ?s1 r) = triggerResult (heap s r)" by (simp add: s1)
    have tr: "trace ?s1 = trace s @ [PollFn r (triggerResult (heap s r))]" by (simp add: s1)
    have tm: "map_le ((timers ?s1)(Suc (fresh s) := None)) ((timers s)(t := None))"
      by (simp add: s1 map_le_remove)
    have cl: "map_le (calls ?s1) (calls s)"
      by (simp add: s1 map_le_remove)
    have tm': "map_le (timers (notDoneRounds r rest ?s1)) ((timers s)(t := None))"
      using ih tm map_le_trans by blast
    have cl': "map_le (calls (notDoneRounds r rest ?s1)) (calls s)"
      using ih cl map_le_trans by blast
    have tr': "trace (notDoneRounds r rest ?s1) =
       trace s @ replicate (length (res # rest)) (PollFn r (triggerResult (heap s r))) @
         (case onError (heap s r) of None \<Rightarrow> []
          | Some f \<Rightarrow> [OnError r (PollingError (''Exceeded maximum retry attempts (''
                             @ maxRetryAttemptsText s @ '')''))])"
      using ih [unfolded mx oe tg tr] by simp
    have st': "getJobState jobId (notDoneRounds r rest ?s1) = Some FAILED"
      using ih by blast
    have er': "error (heap (notDoneRounds r rest ?s1) r) =
       Some (PollingError (''Exceeded maximum retry attempts (''
                             @ maxRetryAttemptsText s @ '')''))"
      using ih [unfolded mx] by blast
    show ?thesis
      unfolding unfold by (intro conjI st' er' tr' tm' cl')
  qed
qed

text \<open>
  C2, as stated, fails: on a manager with retry ceiling 2, the trigger of a job resolves to
  \<^verbatim>\<open>undefined\<close>. When the first timeout fires the job becomes FAILED with the PollingError
  \<^verbatim>\<open>Trigger result is undefined\<close>, which is not the retry-ceiling error; \<^verbatim>\<open>pollFn\<close> is
  invoked 0 times, not 3 times, and the retry count is 0. And on a manager with retry
  ceiling -1, a job whose trigger resolves to a truthy value is polled once, not 0 times,
  before it fails with the retry-ceiling error.
\<close>

theorem undefined_trigger_is_never_polled:
  "maxRetryAttempts demoStarted = Finite 2 \<and>
   calls demoStarted 1 = Some (TriggerCall ''job_1'' 0) \<and>
   getJobState ''job_1'' demoUndefinedTrigger = Some FAILED \<and>
   error (heap demoUndefinedTrigger 0) = Some (PollingError ''Trigger result is undefined'') \<and>
   retryCount (heap demoUndefinedTrigger 0) = 0 \<and>
   trace demoUndefinedTrigger =
     [TriggerFn 0, OnError 0 (PollingError ''Trigger result is undefined'')] \<and>
   maxRetryAttempts demoNegativeCeiling = Finite (- 1) \<and>
   getJobState ''job_1'' demoNegativeCeiling = Some FAILED \<and>
   trace demoNegativeCeiling =
     [TriggerFn 0, PollFn 0 (JStr ''trk-1''),
      OnError 0 (PollingError ''Exceeded maximum retry attempts (-1)'')]"
  by (simp add: demo_defs step_defs op_defs getJobState_def)

text \<open>
  C2, amended. On a manager whose retry ceiling is the integer N (at least 0), a job is
  started, the call of its trigger function returns a promise that resolves to a truthy
  value, and then every call of its poll function returns a promise that resolves to
  \<^verbatim>\<open>done: false\<close>, N+1 times. After each of the first N polls the job is still POLLING;
  after the poll number N+1 the job is FAILED with the PollingError
  \<^verbatim>\<open>Exceeded maximum retry attempts (N)\<close>, N as the runtime renders it. The trace shows
  exactly N+1 invocations of \<^verbatim>\<open>pollFn\<close>, followed by \<^verbatim>\<open>onError\<close> if provided, and every
  timeout or call that is pending at the end was pending before the job was started: no
  further poll is scheduled. When the trigger resolves to \<^verbatim>\<open>undefined\<close> instead, the first
  timeout makes the job FAILED with \<^verbatim>\<open>Trigger result is undefined\<close> and \<^verbatim>\<open>pollFn\<close> is never
  invoked.
\<close>

theorem retry_ceiling:
  assumes "maxRetryAttempts s = Finite (of_int N)" "0 \<le> N" "truthy v"
    "length results = nat N + 1" "tf (trace s) = None" "\<forall>h a. pf h a = None"
  shows "let r = fresh s;
             polling = run [StartJob jobId tf pf cf onC onE,
                            Runtime (TriggerSettles (Suc r) (Inr v))] s;
             final = notDoneRounds r results polling;
             ceilingError = PollingError (''Exceeded maximum retry attempts (''
                                            @ maxRetryAttemptsText s @ '')'');
             unpolled = run [StartJob jobId tf pf cf onC onE,
                             Runtime (TriggerSettles (Suc r) (Inr JUndefined)),
                             Runtime (TimerFires (Suc (Suc r)))] s
         in (\<forall>k \<le> nat N.
               getJobState jobId (notDoneRounds r (take k results) polling) = Some POLLING \<and>
               trace (notDoneRounds r (take k results) polling) =
                 trace s @ [TriggerFn r] @ replicate k (PollFn r v)) \<and>
            getJobState jobId final = Some FAILED \<and>
            error (heap final r) = Some ceilingError \<and>
            trace final =
              trace s @ [TriggerFn r] @ replicate (nat N + 1) (PollFn r v) @
                (case onE of None \<Rightarrow> [] | Some f \<Rightarrow> [OnError r ceilingError]) \<and>
            map_le (timers final) (timers s) \<and>
            map_le (calls final) (calls s) \<and>
            getJobState jobId unpolled = Some FAILED \<and>
            error (heap unpolled r) = Some (PollingError ''Trigger result is undefined'') \<and>
            trace unpolled = trace s @ [TriggerFn r] @
              (case onE of None \<Rightarrow> []
               | Some f \<Rightarrow> [OnError r (PollingError ''Trigger result is undefined'')])"
proof -
  define r where "r = fresh s"
  define p where "p = run [StartJob jobId tf pf cf onC onE,
                            Runtime (TriggerSettles (Suc r) (Inr v))] s"
  define u0 where "u0 = run [StartJob jobId tf pf cf onC onE,
                             Runtime (TriggerSettles (Suc r) (Inr JUndefined))] s"
  define u where "u = run [StartJob jobId tf pf cf onC onE,
                             Runtime (TriggerSettles (Suc r) (Inr JUndefined)),
                             Runtime (TimerFires (Suc (Suc r)))] s"
  note defs = p_def u_def r_def
  have p: "p = s\<lparr>heap := (heap s)(r := \<lparr>job_id = jobId, state = POLLING, triggerFn = tf,
                     pollFn = pf, completeFn = cf, onComplete = onC,
                     onError = onE, triggerResult = v, pollResult = JUndefined,
                     finalResult = JUndefined, retryCount = 0, error = None,
                     timerId = Some (Suc (Suc r))\<rparr>),
                 jobs := AList.update jobId r (jobs s),
                 timers := (timers s)(Suc (Suc r) \<mapsto> (jobId, r)),
                 calls := (calls s)(Suc r := None),
                 fresh := Suc (Suc (Suc r)),
                 trace := trace s @ [TriggerFn r]\<rparr>"
    unfolding p_def r_def
    by (rule started_and_triggered [where tf = tf and s = s, OF assms(5)])
  have u0: "u0 = s\<lparr>heap := (heap s)(r := \<lparr>job_id = jobId, state = POLLING, triggerFn = tf,
                     pollFn = pf, completeFn = cf, onComplete = onC,
                     onError = onE, triggerResult = JUndefined, pollResult = JUndefined,
                     finalResult = JUndefined, retryCount = 0, error = None,
                     timerId = Some (Suc (Suc r))\<rparr>),
                 jobs := AList.update jobId r (jobs s),
                 timers := (timers s)(Suc (Suc r) \<mapsto> (jobId, r)),
                 calls := (calls s)(Suc r := None),
                 fresh := Suc (Suc (Suc r)),
                 trace := trace s @ [TriggerFn r]\<rparr>"
    unfolding u0_def r_def
    by (rule started_and_triggered [where tf = tf and s = s, OF assms(5)])
  have "u = snd (deliver (TimerFires (Suc (Suc r))) u0)"
    unfolding u_def u0_def by (simp add: run_def)
  also have "\<dots> = u0\<lparr>timers := (timers u0)(Suc (Suc r) := None),
       heap := (heap u0)(r := (heap u0 r)\<lparr>state := FAILED,
                 error := Some (PollingError ''Trigger result is undefined'')\<rparr>),
       trace := trace u0 @ (case onError (heap u0 r) of None \<Rightarrow> []
                  | Some f \<Rightarrow> [OnError r (PollingError ''Trigger result is undefined'')])\<rparr>"
    by (rule falsy_trigger_timer [where jobId = jobId]) (simp_all add: u0 update_conv')
  finally have u: "u = u0\<lparr>timers := (timers u0)(Suc (Suc r) := None),
       heap := (heap u0)(r := (heap u0 r)\<lparr>state := FAILED,
                 error := Some (PollingError ''Trigger result is undefined'')\<rparr>),
       trace := trace u0 @ (case onError (heap u0 r) of None \<Rightarrow> []
                  | Some f \<Rightarrow> [OnError r (PollingError ''Trigger result is undefined'')])\<rparr>" .
  have u0f: "map_of (jobs u0) jobId = Some r" "onError (heap u0 r) = onE"
    "trace u0 = trace s @ [TriggerFn r]"
    by (simp_all add: u0 update_conv')
  have un: "getJobState jobId u = Some FAILED"
    "error (heap u r) = Some (PollingError ''Trigger result is undefined'')"
    "trace u = trace s @ [TriggerFn r] @
              (case onE of None \<Rightarrow> []
               | Some f \<Rightarrow> [OnError r (PollingError ''Trigger result is undefined'')])"
    unfolding u using u0f by (simp_all add: getJobState_def)
  have reg: "map_of (jobs p) jobId = Some r" by (simp add: p update_conv')
  have st: "state (heap p r) = POLLING" by (simp add: p)
  have tg: "truthy (triggerResult (heap p r))" using assms(3) by (simp add: p)
  have ti: "timerId (heap p r) = Some (Suc (Suc r))" by (simp add: p)
  have tm: "timers p (Suc (Suc r)) = Some (jobId, r)" by (simp add: p)
  have nt: "\<forall>h a. pollFn (heap p r) h a = None" using assms(6) by (simp add: p)
  have mxn: "maxRetryAttempts p = Finite (of_int N)" using assms(1) by (simp add: p)
  have tgv: "triggerResult (heap p r) = v" by (simp add: p)
  have trp: "trace p = trace s @ [TriggerFn r]" by (simp add: p)
  have prefix: "getJobState jobId (notDoneRounds r (take k results) p) = Some POLLING \<and>
               trace (notDoneRounds r (take k results) p) =
                 trace s @ [TriggerFn r] @ replicate k (PollFn r v)"
    if "k \<le> nat N" for k
  proof -
    have len: "length (take k results) = k" using that assms(4) by simp
    have "retryCount (heap p r) + int (length (take k results)) \<le> N"
      using that assms(2) by (simp add: len p)
    from notDoneRounds_below [OF reg st tg ti tm nt mxn this]
    have "map_of (jobs (notDoneRounds r (take k results) p)) jobId = Some r"
      and "state (heap (notDoneRounds r (take k results) p) r) = POLLING"
      and "trace (notDoneRounds r (take k results) p) =
             trace p @ replicate (length (take k results)) (PollFn r (triggerResult (heap p r)))"
      by blast+
    moreover have "min (length results) k = k" using that assms(4) by simp
    ultimately show ?thesis
      by (simp add: getJobState_def tgv trp)
  qed
  have "retryCount (heap p r) + int (length results) = N + 1"
    using assms(2,4) by (simp add: p)
  moreover have "results \<noteq> []" using assms(4) by auto
  ultimately have fin: "getJobState jobId (notDoneRounds r results p) = Some FAILED \<and>
     error (heap (notDoneRounds r results p) r) =
       Some (PollingError (''Exceeded maximum retry attempts (''
                             @ maxRetryAttemptsText p @ '')'')) \<and>
     trace (notDoneRounds r results p) =
       trace p @ replicate (length results) (PollFn r (triggerResult (heap p r))) @
         (case onError (heap p r) of None \<Rightarrow> []
          | Some f \<Rightarrow> [OnError r (PollingError (''Exceeded maximum retry attempts (''
                             @ maxRetryAttemptsText p @ '')''))]) \<and>
     map_le (timers (notDoneRounds r results p)) ((timers p)(Suc (Suc r) := None)) \<and>
     map_le (calls (notDoneRounds r results p)) (calls p)"
    by (rule notDoneRounds_ceiling [OF reg st tg ti tm nt mxn])
  have mx: "maxRetryAttemptsText p = maxRetryAttemptsText s" by (simp add: p)
  have oe: "onError (heap p r) = onE" by (simp add: p)
  have "map_le ((timers p)(Suc (Suc r) := None)) (timers s)"
    by (simp add: p map_le_remove)
  then have tms: "map_le (timers (notDoneRounds r results p)) (timers s)"
    using fin map_le_trans by blast
  have "map_le (calls p) (calls s)" by (simp add: p map_le_remove)
  then have cls: "map_le (calls (notDoneRounds r results p)) (calls s)"
    using fin map_le_trans by blast
  have trf: "trace (notDoneRounds r results p) =
      trace s @ [TriggerFn r] @ replicate (nat N + 1) (PollFn r v) @
        (case onE of None \<Rightarrow> []
         | Some f \<Rightarrow> [OnError r (PollingError (''Exceeded maximum retry attempts (''
                             @ maxRetryAttemptsText s @ '')''))])"
    using fin [unfolded mx oe tgv trp] by (simp add: assms(4))
  have finst: "getJobState jobId (notDoneRounds r results p) = Some FAILED"
    using fin by blast
  have finer: "error (heap (notDoneRounds r results p) r) =
       Some (PollingError (''Exceeded maximum retry attempts (''
                             @ maxRetryAttemptsText s @ '')''))"
    using fin [unfolded mx] by blast
  have pre: "\<forall>k \<le> nat N.
               getJobState jobId (notDoneRounds r (take k results) p) = Some POLLING \<and>
               trace (notDoneRounds r (take k results) p) =
                 trace s @ [TriggerFn r] @ replicate k (PollFn r v)"
    using prefix by blast
  show ?thesis
    unfolding Let_def
    by (intro conjI pre [unfolded defs] finst [unfolded defs] finer [unfolded defs]
          trf [unfolded defs] tms [unfolded defs] cls [unfolded defs] un [unfolded defs])
qed

theorem retry_ceiling_witness:
  "maxRetryAttempts demoManager = Finite (of_int 2) \<and> (0::int) \<le> 2 \<and>
   truthy (JStr ''trk-1'') \<and>
   length [JUndefined, JNull, JUndefined] = nat 2 + 1 \<and>
   asyncTrigger (trace demoManager) = None \<and> (\<forall>h a. asyncStage h a = None) \<and>
   getJobState ''job_1''
     (notDoneRounds 0 [JUndefined, JNull, JUndefined]
        (run [StartJob ''job_1'' asyncTrigger asyncStage asyncStage None (Some returnsNormally),
              Runtime (TriggerSettles 1 (Inr (JStr ''trk-1'')))] demoManager)) = Some FAILED \<and>
   trace
     (notDoneRounds 0 [JUndefined, JNull, JUndefined]
        (run [StartJob ''job_1'' asyncTrigger asyncStage asyncStage None (Some returnsNormally),
              Runtime (TriggerSettles 1 (Inr (JStr ''trk-1'')))] demoManager)) =
     [TriggerFn 0, PollFn 0 (JStr ''trk-1''), PollFn 0 (JStr ''trk-1''),
      PollFn 0 (JStr ''trk-1''),
      OnError 0 (PollingError ''Exceeded maximum retry attempts (2)'')]"
proof -
  have m: "maxRetryAttempts demoManager = Finite (of_int 2)" "fresh demoManager = 0"
    "trace demoManager = []" "maxRetryAttemptsText demoManager = ''2''"
    by (simp_all add: demoManager_def newManager_def)
  have h: "maxRetryAttempts demoManager = Finite (of_int 2)" "(0::int) \<le> 2"
    "truthy (JStr ''trk-1'')"
    "length [JUndefined, JNull, JUndefined] = nat 2 + 1"
    "asyncTrigger (trace demoManager) = None" "\<forall>h a. asyncStage h a = None"
    by (simp_all add: m asyncTrigger_def asyncStage_def)
  show ?thesis
    using h retry_ceiling [where s = demoManager and N = 2 and v = "JStr ''trk-1''"
                             and results = "[JUndefined, JNull, JUndefined]"
                             and tf = asyncTrigger and pf = asyncStage and cf = asyncStage
                             and jobId = "''job_1''" and onC = None
                             and onE = "Some returnsNormally", OF h]
    by (simp add: Let_def m numeral_3_eq_3)
qed

end
